theory Spec2Isabelle
  imports Main "HOL-Library.Word" "HOL-Library.Sublist"
begin

section \<open>JavaScript values shared by the modules\<close>

text \<open>
  A JavaScript string is a sequence of UTF-16 code units. ASCII literals of the source are
  written with \<open>str\<close>; the few non-ASCII literals are given by their code units.
\<close>

type_synonym code_unit = "16 word"
type_synonym jsstring = "code_unit list"

definition str :: "string \<Rightarrow> jsstring" where
  "str s = map of_char s"

text \<open>\<open>String.prototype.startsWith\<close> and \<open>String.prototype.includes\<close>.\<close>

definition startsWith :: "jsstring \<Rightarrow> jsstring \<Rightarrow> bool" where
  "startsWith s p = prefix p s"

definition string_includes :: "jsstring \<Rightarrow> jsstring \<Rightarrow> bool" where
  "string_includes s m = sublist m s"

text \<open>
  Numbers. The selection memory stores list positions and episode ids, the carousel list
  positions: integer-valued numbers. They are modelled as \<open>int\<close>; the model is exact for
  the safe integers of JavaScript (\<open>Number.isSafeInteger\<close>), where
  \<open>Number.prototype.toString\<close> prints the plain decimal numeral.
\<close>

definition isSafeInteger :: "int \<Rightarrow> bool" where
  "isSafeInteger n = (\<bar>n\<bar> \<le> 2 ^ 53 - 1)"

definition digit_unit :: "nat \<Rightarrow> code_unit" where
  "digit_unit d = of_nat (48 + d)"

fun digits :: "nat \<Rightarrow> jsstring" where
  "digits n = (if n < 10 then [digit_unit n] else digits (n div 10) @ [digit_unit (n mod 10)])"

declare digits.simps [simp del]

definition toString :: "int \<Rightarrow> jsstring" where
  "toString n = (if n < 0 then str ''-'' @ digits (nat (- n)) else digits (nat n))"

text \<open>
  \<open>parseInt(s, 10)\<close>: leading white space is skipped, one sign is read, then the longest
  run of decimal digits; what follows is ignored. No digit at all gives \<open>NaN\<close>, which is
  \<open>None\<close> here.
\<close>

definition isWhiteSpace :: "code_unit \<Rightarrow> bool" where
  "isWhiteSpace c = (c \<in> set [0x9, 0xA, 0xB, 0xC, 0xD, 0x20, 0xA0, 0x1680, 0x2000, 0x2001,
     0x2002, 0x2003, 0x2004, 0x2005, 0x2006, 0x2007, 0x2008, 0x2009, 0x200A, 0x2028, 0x2029,
     0x202F, 0x205F, 0x3000, 0xFEFF])"

definition isDigit :: "code_unit \<Rightarrow> bool" where
  "isDigit c = (0x30 \<le> c \<and> c \<le> 0x39)"

definition digit_value :: "code_unit \<Rightarrow> nat" where
  "digit_value c = unat c - 48"

definition digits_value :: "jsstring \<Rightarrow> nat" where
  "digits_value ds = foldl (\<lambda>acc c. 10 * acc + digit_value c) 0 ds"

definition parseInt :: "jsstring \<Rightarrow> int option" where
  "parseInt s =
     (let t = dropWhile isWhiteSpace s;
          neg = (t \<noteq> [] \<and> hd t = 0x2D);
          u = (if t \<noteq> [] \<and> (hd t = 0x2B \<or> hd t = 0x2D) then tl t else t);
          ds = takeWhile isDigit u
      in if ds = [] then None
         else Some (if neg then - int (digits_value ds) else int (digits_value ds)))"

section \<open>Browser storage\<close>

text \<open>
  A \<open>Storage\<close> object (\<open>sessionStorage\<close>, \<open>localStorage\<close>): the entries in key order, and
  the user agent's quota policy, which says whether a list of entries can be held.
  \<open>setItem\<close> raises \<open>QuotaExceededError\<close> when the new value cannot be set; the other
  operations do not raise. Reading the storage attribute of the window raises
  \<open>SecurityError\<close> when the user agent denies access to storage.
\<close>

datatype exn = SecurityError | QuotaExceededError | SyntaxError | TypeError | NetworkError

record storage =
  entries :: "(jsstring \<times> jsstring) list"
  admits :: "(jsstring \<times> jsstring) list \<Rightarrow> bool"

definition getItem :: "storage \<Rightarrow> jsstring \<Rightarrow> jsstring option" where
  "getItem s k = map_of (entries s) k"

fun put_entry :: "jsstring \<Rightarrow> jsstring \<Rightarrow> (jsstring \<times> jsstring) list \<Rightarrow> (jsstring \<times> jsstring) list" where
  "put_entry k v [] = [(k, v)]"
| "put_entry k v ((k', v') # es) = (if k' = k then (k, v) # es else (k', v') # put_entry k v es)"

definition setItem :: "storage \<Rightarrow> jsstring \<Rightarrow> jsstring \<Rightarrow> exn + storage" where
  "setItem s k v =
     (let es = put_entry k v (entries s)
      in if admits s es then Inr (s\<lparr>entries := es\<rparr>) else Inl QuotaExceededError)"

definition removeItem :: "storage \<Rightarrow> jsstring \<Rightarrow> storage" where
  "removeItem s k = s\<lparr>entries := filter (\<lambda>e. fst e \<noteq> k) (entries s)\<rparr>"

definition storage_length :: "storage \<Rightarrow> nat" where
  "storage_length s = length (entries s)"

definition key :: "storage \<Rightarrow> nat \<Rightarrow> jsstring option" where
  "key s i = (if i < length (entries s) then Some (fst (entries s ! i)) else None)"

text \<open>
  The global object as the selection memory sees it: no \<open>window\<close> at all (server-side
  rendering), or a window whose \<open>sessionStorage\<close> attribute gives the storage or raises.
\<close>

datatype global = NoWindow | Window "exn + storage"

section \<open>Selection memory (src/lib/danmaku/selection-memory.ts)\<close>

definition STORAGE_KEY_PREFIX :: jsstring where
  "STORAGE_KEY_PREFIX = str ''danmaku_selection_''"

definition index_key :: "jsstring \<Rightarrow> jsstring" where
  "index_key title = STORAGE_KEY_PREFIX @ str ''index_'' @ title"

definition manual_key :: "jsstring \<Rightarrow> int \<Rightarrow> jsstring" where
  "manual_key title episodeIndex =
     STORAGE_KEY_PREFIX @ str ''manual_'' @ title @ str ''_'' @ toString episodeIndex"

definition manual_prefix :: "jsstring \<Rightarrow> jsstring" where
  "manual_prefix title = STORAGE_KEY_PREFIX @ str ''manual_'' @ title @ str ''_''"

text \<open>
  Each operation returns at once without a window; otherwise its body runs inside
  \<open>try\<close>, and an exception is logged and dropped: the global object stays as it was, and a
  reader returns \<open>null\<close> (\<open>None\<close>).
\<close>

definition saveDanmakuSourceIndex :: "global \<Rightarrow> jsstring \<Rightarrow> int \<Rightarrow> global" where
  "saveDanmakuSourceIndex g title selectedIndex =
     (case g of
        NoWindow \<Rightarrow> g
      | Window (Inl e) \<Rightarrow> g
      | Window (Inr s) \<Rightarrow>
          (case setItem s (index_key title) (toString selectedIndex) of
             Inl e \<Rightarrow> g
           | Inr s' \<Rightarrow> Window (Inr s')))"

definition getDanmakuSourceIndex :: "global \<Rightarrow> jsstring \<Rightarrow> int option" where
  "getDanmakuSourceIndex g title =
     (case g of
        NoWindow \<Rightarrow> None
      | Window (Inl e) \<Rightarrow> None
      | Window (Inr s) \<Rightarrow>
          (case getItem s (index_key title) of
             None \<Rightarrow> None
           | Some v \<Rightarrow>
               (case parseInt v of
                  None \<Rightarrow> None
                | Some i \<Rightarrow> if i \<ge> 0 then Some i else None)))"

definition saveManualDanmakuSelection :: "global \<Rightarrow> jsstring \<Rightarrow> int \<Rightarrow> int \<Rightarrow> global" where
  "saveManualDanmakuSelection g title episodeIndex episodeId =
     (case g of
        NoWindow \<Rightarrow> g
      | Window (Inl e) \<Rightarrow> g
      | Window (Inr s) \<Rightarrow>
          (case setItem s (manual_key title episodeIndex) (toString episodeId) of
             Inl e \<Rightarrow> g
           | Inr s' \<Rightarrow> Window (Inr s')))"

definition getManualDanmakuSelection :: "global \<Rightarrow> jsstring \<Rightarrow> int \<Rightarrow> int option" where
  "getManualDanmakuSelection g title episodeIndex =
     (case g of
        NoWindow \<Rightarrow> None
      | Window (Inl e) \<Rightarrow> None
      | Window (Inr s) \<Rightarrow>
          (case getItem s (manual_key title episodeIndex) of
             None \<Rightarrow> None
           | Some v \<Rightarrow>
               (case parseInt v of
                  None \<Rightarrow> None
                | Some episodeId \<Rightarrow> Some episodeId)))"

text \<open>
  The clearing loop: \<open>i\<close> runs over \<open>0 ..< sessionStorage.length\<close>, and a key is collected
  when it is truthy (not the empty string) and starts with the given prefix. The collected
  keys are removed afterwards, one by one.
\<close>

fun collect_keys :: "storage \<Rightarrow> jsstring \<Rightarrow> nat \<Rightarrow> nat \<Rightarrow> jsstring list \<Rightarrow> jsstring list" where
  "collect_keys s p i 0 keysToRemove = keysToRemove"
| "collect_keys s p i (Suc n) keysToRemove =
     collect_keys s p (Suc i) n
       (case key s i of
          None \<Rightarrow> keysToRemove
        | Some k \<Rightarrow> if k \<noteq> [] \<and> startsWith k p then keysToRemove @ [k] else keysToRemove)"

definition keys_with_prefix :: "storage \<Rightarrow> jsstring \<Rightarrow> jsstring list" where
  "keys_with_prefix s p = collect_keys s p 0 (storage_length s) []"

definition clearDanmakuSelectionMemory :: "global \<Rightarrow> jsstring \<Rightarrow> global" where
  "clearDanmakuSelectionMemory g title =
     (case g of
        NoWindow \<Rightarrow> g
      | Window (Inl e) \<Rightarrow> g
      | Window (Inr s) \<Rightarrow>
          (let s1 = removeItem s (index_key title);
               keysToRemove = keys_with_prefix s1 (manual_prefix title)
           in Window (Inr (foldl removeItem s1 keysToRemove))))"

definition clearAllDanmakuSelectionMemory :: "global \<Rightarrow> global" where
  "clearAllDanmakuSelectionMemory g =
     (case g of
        NoWindow \<Rightarrow> g
      | Window (Inl e) \<Rightarrow> g
      | Window (Inr s) \<Rightarrow>
          Window (Inr (foldl removeItem s (keys_with_prefix s STORAGE_KEY_PREFIX))))"

text \<open>A window whose session storage is empty and takes every write.\<close>

definition unlimited :: "(jsstring \<times> jsstring) list \<Rightarrow> bool" where
  "unlimited es = True"

definition empty_storage :: storage where
  "empty_storage = \<lparr>entries = [], admits = unlimited\<rparr>"

definition fresh_window :: global where
  "fresh_window = Window (Inr empty_storage)"

section \<open>JSON values\<close>

text \<open>
  What \<open>response.json()\<close> and \<open>JSON.parse\<close> return, and \<open>undefined\<close>, which reading a
  missing property gives. An object is the list of its own properties. Numbers are
  integers here; a fractional number takes the same branches as a non-zero integer in all
  the code below.
\<close>

datatype js =
    Undefined
  | Null
  | Bool bool
  | Num int
  | Str jsstring
  | Arr "js list"
  | Obj "(jsstring \<times> js) list"

fun truthy :: "js \<Rightarrow> bool" where
  "truthy Undefined = False"
| "truthy Null = False"
| "truthy (Bool b) = b"
| "truthy (Num n) = (n \<noteq> 0)"
| "truthy (Str s) = (s \<noteq> [])"
| "truthy (Arr xs) = True"
| "truthy (Obj ps) = True"

text \<open>
  \<open>v.name\<close>, for the property names this code reads (\<open>data\<close>, \<open>CardList\<close>, \<open>type\<close>,
  \<open>children_list\<close>, \<open>list\<close>, \<open>cards\<close>, \<open>params\<close>, \<open>title\<close>, \<open>code\<close>, \<open>timestamp\<close>, ...):
  none of them is defined on a prototype, so only an object's own property gives a value;
  reading from \<open>null\<close> or \<open>undefined\<close> raises \<open>TypeError\<close>. \<open>v?.name\<close> gives \<open>undefined\<close>
  there instead.
\<close>

fun get_prop :: "js \<Rightarrow> jsstring \<Rightarrow> exn + js" where
  "get_prop Undefined name = Inl TypeError"
| "get_prop Null name = Inl TypeError"
| "get_prop (Obj ps) name = Inr (case map_of ps name of None \<Rightarrow> Undefined | Some v \<Rightarrow> v)"
| "get_prop v name = Inr Undefined"

fun opt_prop :: "js \<Rightarrow> jsstring \<Rightarrow> js" where
  "opt_prop (Obj ps) name = (case map_of ps name of None \<Rightarrow> Undefined | Some v \<Rightarrow> v)"
| "opt_prop v name = Undefined"

text \<open>\<open>a || b\<close> on values.\<close>

definition or_else :: "js \<Rightarrow> js \<Rightarrow> js" where
  "or_else a b = (if truthy a then a else b)"

text \<open>\<open>try { ... } catch (error) { ... }\<close> on results.\<close>

definition try_catch :: "exn + 'a \<Rightarrow> (exn \<Rightarrow> exn + 'a) \<Rightarrow> exn + 'a" where
  "try_catch body handler = (case body of Inl error \<Rightarrow> handler error | Inr v \<Rightarrow> Inr v)"

section \<open>The video-portal adapter (parseTXBannerData, getTXBannerContent)\<close>

record item =
  item_id :: int
  title :: js
  subtitle :: js
  tags :: "jsstring list"
  backdrop_path :: js
  poster_path :: js
  release_date :: jsstring
  overview :: js
  vote_average :: int
  media_type :: jsstring
  genre_ids :: "js list"

text \<open>The promotional marker of the final filter, four code units.\<close>

definition marker :: jsstring where
  "marker = [0x514D, 0x8D39, 0x5408, 0x96C6]"

definition cardList_of :: "js \<Rightarrow> js" where
  "cardList_of data = opt_prop (opt_prop data (str ''data'')) (str ''CardList'')"

definition cards_of :: "js \<Rightarrow> js" where
  "cards_of pcShelvesCard =
     opt_prop (opt_prop (opt_prop pcShelvesCard (str ''children_list'')) (str ''list'')) (str ''cards'')"

text \<open>\<open>cardList.find(card => card.type === 'pc_shelves')\<close>; the callback raises on a
  \<open>null\<close> element.\<close>

fun find_card :: "js list \<Rightarrow> exn + js" where
  "find_card [] = Inr Undefined"
| "find_card (card' # rest) =
     (case get_prop card' (str ''type'') of
        Inl e \<Rightarrow> Inl e
      | Inr t \<Rightarrow> if t = Str (str ''pc_shelves'') then Inr card' else find_card rest)"

text \<open>\<open>cards.filter(card => card.params)\<close>.\<close>

fun filter_params :: "js list \<Rightarrow> exn + js list" where
  "filter_params [] = Inr []"
| "filter_params (card' # rest) =
     (case get_prop card' (str ''params'') of
        Inl e \<Rightarrow> Inl e
      | Inr p \<Rightarrow>
          (case filter_params rest of
             Inl e \<Rightarrow> Inl e
           | Inr kept \<Rightarrow> Inr (if truthy p then card' # kept else kept)))"

text \<open>\<open>topicLabel.split('|')\<close>: the fields between separators, empty ones included.\<close>

fun split_at :: "code_unit \<Rightarrow> jsstring \<Rightarrow> jsstring \<Rightarrow> jsstring list" where
  "split_at sep cur [] = [cur]"
| "split_at sep cur (c # cs) =
     (if c = sep then cur # split_at sep [] cs else split_at sep (cur @ [c]) cs)"

text \<open>
  \<open>topicLabel ? topicLabel.split('|').filter(Boolean) : []\<close>: a truthy label that is not a
  string has no \<open>split\<close> method, and the call raises.
\<close>

definition tags_of :: "js \<Rightarrow> exn + jsstring list" where
  "tags_of topicLabel =
     (if truthy topicLabel
      then (case topicLabel of
              Str s \<Rightarrow> Inr (filter (\<lambda>f. f \<noteq> []) (split_at 0x7C [] s))
            | _ \<Rightarrow> Inl TypeError)
      else Inr [])"

text \<open>The callback of \<open>map\<close>, on one card and its position in the filtered list.\<close>

definition banner_item :: "js \<Rightarrow> nat \<Rightarrow> exn + item" where
  "banner_item card' index =
     (case get_prop card' (str ''params'') of
        Inl e \<Rightarrow> Inl e
      | Inr params \<Rightarrow>
          (case get_prop params (str ''title'') of
             Inl e \<Rightarrow> Inl e
           | Inr t \<Rightarrow>
          (case get_prop params (str ''priority_sub_title'') of
             Inl e \<Rightarrow> Inl e
           | Inr st1 \<Rightarrow>
          (case get_prop params (str ''rec_normal_reason'') of
             Inl e \<Rightarrow> Inl e
           | Inr st2 \<Rightarrow>
          (case get_prop params (str ''topic_label'') of
             Inl e \<Rightarrow> Inl e
           | Inr topic \<Rightarrow>
          (case tags_of (or_else topic (Str [])) of
             Inl e \<Rightarrow> Inl e
           | Inr tgs \<Rightarrow>
          (case get_prop params (str ''priority_image_url'') of
             Inl e \<Rightarrow> Inl e
           | Inr img \<Rightarrow>
               Inr \<lparr>item_id = int index + 1,
                    title = or_else t (Str []),
                    subtitle = or_else (or_else st1 st2) (Str []),
                    tags = tgs,
                    backdrop_path = or_else img (Str []),
                    poster_path = or_else img (Str []),
                    release_date = [],
                    overview = or_else (or_else st1 st2) (Str []),
                    vote_average = 0,
                    media_type = str ''tv'',
                    genre_ids = []\<rparr>)))))))"

fun map_items :: "js list \<Rightarrow> nat \<Rightarrow> exn + item list" where
  "map_items [] index = Inr []"
| "map_items (card' # rest) index =
     (case banner_item card' index of
        Inl e \<Rightarrow> Inl e
      | Inr it \<Rightarrow>
          (case map_items rest (Suc index) of
             Inl e \<Rightarrow> Inl e
           | Inr its \<Rightarrow> Inr (it # its)))"

text \<open>
  The callback of the final \<open>filter\<close>. \<open>item.title.includes(...)\<close> is the substring test on
  a string and the membership test on an array; any other truthy title has no \<open>includes\<close>
  method, and the call raises.
\<close>

definition keep_item :: "item \<Rightarrow> exn + bool" where
  "keep_item it =
     (if \<not> truthy (title it) \<or> \<not> truthy (backdrop_path it) then Inr False
      else (case title it of
              Str s \<Rightarrow> Inr (\<not> string_includes s marker)
            | Arr xs \<Rightarrow> Inr (Str marker \<notin> set xs)
            | _ \<Rightarrow> Inl TypeError))"

fun filter_items :: "item list \<Rightarrow> exn + item list" where
  "filter_items [] = Inr []"
| "filter_items (it # rest) =
     (case keep_item it of
        Inl e \<Rightarrow> Inl e
      | Inr keep \<Rightarrow>
          (case filter_items rest of
             Inl e \<Rightarrow> Inl e
           | Inr kept \<Rightarrow> Inr (if keep then it # kept else kept)))"

definition bannerItems :: "js list \<Rightarrow> exn + item list" where
  "bannerItems cards =
     (case filter_params cards of
        Inl e \<Rightarrow> Inl e
      | Inr with_params \<Rightarrow>
          (case map_items with_params 0 of
             Inl e \<Rightarrow> Inl e
           | Inr its \<Rightarrow> filter_items its))"

text \<open>The \<open>try\<close> block of \<open>parseTXBannerData\<close>, then the function with its \<open>catch\<close>.\<close>

definition parseTXBannerData_try :: "js \<Rightarrow> exn + item list" where
  "parseTXBannerData_try data =
     (case cardList_of data of
        Arr cardList \<Rightarrow>
          (case find_card cardList of
             Inl e \<Rightarrow> Inl e
           | Inr pcShelvesCard \<Rightarrow>
               if \<not> truthy pcShelvesCard then Inr []
               else (case cards_of pcShelvesCard of
                       Arr cards \<Rightarrow> bannerItems cards
                     | _ \<Rightarrow> Inr []))
      | _ \<Rightarrow> Inr [])"

definition parseTXBannerData :: "js \<Rightarrow> exn + item list" where
  "parseTXBannerData data = try_catch (parseTXBannerData_try data) (\<lambda>error. Inr [])"

text \<open>
  \<open>getTXBannerContent\<close>: the outcome of \<open>fetch\<close> (a response, or an exception such as the
  15 s timeout) is its argument; \<open>json\<close> is what \<open>response.json()\<close> gives.
\<close>

record http_response =
  ok :: bool
  status :: int
  json :: "exn + js"

record tx_result =
  code :: int
  list :: "item list"

definition getTXBannerContent_try :: "exn + http_response \<Rightarrow> exn + tx_result" where
  "getTXBannerContent_try fetched =
     (case fetched of
        Inl e \<Rightarrow> Inl e
      | Inr response \<Rightarrow>
          if \<not> ok response then Inr \<lparr>code = status response, list = []\<rparr>
          else (case json response of
                  Inl e \<Rightarrow> Inl e
                | Inr data \<Rightarrow>
                    (case parseTXBannerData data of
                       Inl e \<Rightarrow> Inl e
                     | Inr parsed \<Rightarrow> Inr \<lparr>code = 200, list = parsed\<rparr>)))"

definition getTXBannerContent :: "exn + http_response \<Rightarrow> exn + tx_result" where
  "getTXBannerContent fetched =
     try_catch (getTXBannerContent_try fetched) (\<lambda>error. Inr \<lparr>code = 500, list = []\<rparr>)"

section \<open>The trending route (GET) and its two cache slots\<close>

definition CACHE_DURATION :: int where
  "CACHE_DURATION = 3 * 60 * 60 * 1000"

record site_config =
  BannerDataSource :: "jsstring option"
  TMDBApiKey :: "jsstring option"
  TMDBProxy :: "jsstring option"

record config =
  SiteConfig :: "site_config option"

text \<open>
  What a slot holds and what a response carries: the result of the video-portal adapter,
  the result of the metadata-provider client, or an error body \<open>{ code, message }\<close>.
\<close>

datatype payload = TXResult tx_result | TMDBResult js | ErrorBody int jsstring

record cache_entry =
  data :: payload
  timestamp :: int

record server_state =
  tmdbCache :: "cache_entry option"
  txCache :: "cache_entry option"

record next_response =
  body :: payload
  http_status :: int

text \<open>\<open>NextResponse.json(body)\<close> answers with status 200.\<close>

definition NextResponse_json :: "payload \<Rightarrow> next_response" where
  "NextResponse_json b = \<lparr>body = b, http_status = 200\<rparr>"

text \<open>
  What one request reads from outside the module: the configuration loader, the clock (once
  at the cache check, once when a slot is written), the outcome of the video-portal
  \<open>fetch\<close>, and the metadata-provider client, whose code is not part of this module.
\<close>

record request =
  getConfig :: "exn + config"
  now_check :: int
  now_store :: int
  tx_fetched :: "exn + http_response"
  getTMDBTrendingContent :: "jsstring \<Rightarrow> jsstring option \<Rightarrow> exn + js"

datatype upstream_call = CallTX | CallTMDB jsstring "jsstring option"

record outcome =
  response :: next_response
  state :: server_state
  calls :: "upstream_call list"

definition message_400 :: jsstring where
  "message_400 = str ''TMDB API Key '' @ [0x672A, 0x914D, 0x7F6E]"

definition message_500 :: jsstring where
  "message_500 = [0x83B7, 0x53D6, 0x70ED, 0x95E8, 0x5185, 0x5BB9, 0x5931, 0x8D25]"

text \<open>\<open>a || 'literal'\<close> on an optional string, and \<open>!a\<close>.\<close>

definition string_or :: "jsstring option \<Rightarrow> jsstring \<Rightarrow> jsstring" where
  "string_or a d = (case a of None \<Rightarrow> d | Some v \<Rightarrow> if v = [] then d else v)"

definition missing :: "jsstring option \<Rightarrow> bool" where
  "missing a = (case a of None \<Rightarrow> True | Some v \<Rightarrow> v = [])"

definition bannerDataSource_of :: "config \<Rightarrow> jsstring" where
  "bannerDataSource_of cfg =
     string_or (case SiteConfig cfg of None \<Rightarrow> None | Some sc \<Rightarrow> BannerDataSource sc) (str ''TMDB'')"

definition apiKey_of :: "config \<Rightarrow> jsstring option" where
  "apiKey_of cfg = (case SiteConfig cfg of None \<Rightarrow> None | Some sc \<Rightarrow> TMDBApiKey sc)"

definition proxy_of :: "config \<Rightarrow> jsstring option" where
  "proxy_of cfg = (case SiteConfig cfg of None \<Rightarrow> None | Some sc \<Rightarrow> TMDBProxy sc)"

definition selected_cache :: "jsstring \<Rightarrow> server_state \<Rightarrow> cache_entry option" where
  "selected_cache bannerDataSource st =
     (if bannerDataSource = str ''TX'' then txCache st else tmdbCache st)"

text \<open>
  The part of the \<open>try\<close> block of \<open>GET\<close> after the cache check, then the whole block: the
  response or the exception that leaves the block, with the module state and the upstream
  calls made up to there. The check is \<open>cache && Date.now() - cache.timestamp <
  CACHE_DURATION\<close>.
\<close>

definition response_400 :: next_response where
  "response_400 = \<lparr>body = ErrorBody 400 message_400, http_status = 400\<rparr>"

definition response_500 :: next_response where
  "response_500 = \<lparr>body = ErrorBody 500 message_500, http_status = 500\<rparr>"

definition fetch_fresh :: "request \<Rightarrow> config \<Rightarrow> server_state \<Rightarrow> (exn + next_response) \<times> server_state \<times> upstream_call list" where
  "fetch_fresh rq cfg st =
     (if bannerDataSource_of cfg = str ''TX''
      then (case getTXBannerContent (tx_fetched rq) of
              Inl e \<Rightarrow> (Inl e, st, [CallTX])
            | Inr result \<Rightarrow>
                (Inr (NextResponse_json (TXResult result)),
                 st\<lparr>txCache := Some \<lparr>data = TXResult result, timestamp = now_store rq\<rparr>\<rparr>,
                 [CallTX]))
      else (case apiKey_of cfg of
              None \<Rightarrow> (Inr response_400, st, [])
            | Some apiKey \<Rightarrow>
                if apiKey = [] then (Inr response_400, st, [])
                else (case getTMDBTrendingContent rq apiKey (proxy_of cfg) of
                        Inl e \<Rightarrow> (Inl e, st, [CallTMDB apiKey (proxy_of cfg)])
                      | Inr result \<Rightarrow>
                          (Inr (NextResponse_json (TMDBResult result)),
                           st\<lparr>tmdbCache := Some \<lparr>data = TMDBResult result, timestamp = now_store rq\<rparr>\<rparr>,
                           [CallTMDB apiKey (proxy_of cfg)]))))"

definition GET_try :: "request \<Rightarrow> server_state \<Rightarrow> (exn + next_response) \<times> server_state \<times> upstream_call list" where
  "GET_try rq st =
     (case getConfig rq of
        Inl e \<Rightarrow> (Inl e, st, [])
      | Inr cfg \<Rightarrow>
          (case selected_cache (bannerDataSource_of cfg) st of
             None \<Rightarrow> fetch_fresh rq cfg st
           | Some cache \<Rightarrow>
               if now_check rq - timestamp cache < CACHE_DURATION
               then (Inr (NextResponse_json (data cache)), st, [])
               else fetch_fresh rq cfg st))"

definition GET :: "request \<Rightarrow> server_state \<Rightarrow> outcome" where
  "GET rq st =
     (case GET_try rq st of
        (Inl error, st', cs) \<Rightarrow>
          \<lparr>response = response_500, state = st', calls = cs\<rparr>
      | (Inr r, st', cs) \<Rightarrow> \<lparr>response = r, state = st', calls = cs\<rparr>)"

section \<open>The carousel controller (BannerCarousel)\<close>

record carousel =
  items :: "js list"
  currentIndex :: "int option"
  isPaused :: bool
  skipNextAutoPlay :: bool
  isManualChange :: bool

text \<open>
  \<open>a % n\<close>: the remainder has the sign of \<open>a\<close>, and a zero divisor gives \<open>NaN\<close>. \<open>NaN\<close> is
  \<open>None\<close>, and arithmetic on \<open>NaN\<close> gives \<open>NaN\<close>.
\<close>

definition js_rem :: "int \<Rightarrow> int \<Rightarrow> int option" where
  "js_rem a n = (if n = 0 then None else Some (sgn a * (\<bar>a\<bar> mod \<bar>n\<bar>)))"

definition goToPrevious :: "carousel \<Rightarrow> carousel" where
  "goToPrevious c =
     c\<lparr>isManualChange := True,
       skipNextAutoPlay := True,
       currentIndex :=
         (case currentIndex c of
            None \<Rightarrow> None
          | Some prev \<Rightarrow> js_rem (prev - 1 + int (length (items c))) (int (length (items c))))\<rparr>"

definition goToNext :: "carousel \<Rightarrow> carousel" where
  "goToNext c =
     c\<lparr>isManualChange := True,
       skipNextAutoPlay := True,
       currentIndex :=
         (case currentIndex c of
            None \<Rightarrow> None
          | Some prev \<Rightarrow> js_rem (prev + 1) (int (length (items c))))\<rparr>"

definition goToSlide :: "int \<Rightarrow> carousel \<Rightarrow> carousel" where
  "goToSlide index c = c\<lparr>isManualChange := True, skipNextAutoPlay := True, currentIndex := Some index\<rparr>"

text \<open>The 100 ms timer of a manual change, and one firing of the auto-play timer, which
  runs only with items and when not paused.\<close>

definition manual_change_timeout :: "carousel \<Rightarrow> carousel" where
  "manual_change_timeout c = c\<lparr>isManualChange := False\<rparr>"

definition auto_play_tick :: "carousel \<Rightarrow> carousel" where
  "auto_play_tick c =
     (if items c = [] \<or> isPaused c then c
      else if skipNextAutoPlay c then c\<lparr>skipNextAutoPlay := False\<rparr>
      else c\<lparr>currentIndex :=
               (case currentIndex c of
                  None \<Rightarrow> None
                | Some prev \<Rightarrow> js_rem (prev + 1) (int (length (items c))))\<rparr>)"

section \<open>The browser cache of the carousel (fetchTrending)\<close>

definition LOCALSTORAGE_KEY :: jsstring where
  "LOCALSTORAGE_KEY = str ''tmdb_trending_cache''"

definition LOCALSTORAGE_DURATION :: int where
  "LOCALSTORAGE_DURATION = 24 * 60 * 60 * 1000"

text \<open>
  What one run of \<open>fetchTrending\<close> reads from the platform: \<open>localStorage\<close> (the storage, or
  the exception that reading the attribute raises), \<open>JSON.parse\<close> and \<open>JSON.stringify\<close>, the
  conversion to a number of a string, array or object (\<open>None\<close> is \<open>NaN\<close>), the clock at the
  read and at the write, and the outcome of the request to the route followed by
  \<open>response.json()\<close>.
\<close>

record client =
  localStorage :: "exn + storage"
  JSON_parse :: "jsstring \<Rightarrow> exn + js"
  JSON_stringify :: "js \<Rightarrow> jsstring"
  ToNumber :: "js \<Rightarrow> int option"
  now_read :: int
  now_write :: int
  api_result :: "exn + js"

definition to_number :: "client \<Rightarrow> js \<Rightarrow> int option" where
  "to_number env v =
     (case v of
        Undefined \<Rightarrow> None
      | Null \<Rightarrow> Some 0
      | Bool b \<Rightarrow> Some (if b then 1 else 0)
      | Num n \<Rightarrow> Some n
      | _ \<Rightarrow> ToNumber env v)"

text \<open>\<open>v.length\<close>: arrays and strings have it; an object may own a property of that name.\<close>

fun get_length :: "js \<Rightarrow> exn + js" where
  "get_length (Arr xs) = Inr (Num (int (length xs)))"
| "get_length (Str s) = Inr (Num (int (length s)))"
| "get_length v = get_prop v (str ''length'')"

text \<open>
  The inner \<open>try\<close> block of the read: \<open>JSON.parse\<close>, the destructuring of \<open>data\<close> and
  \<open>timestamp\<close>, and the test \<open>now - timestamp < LOCALSTORAGE_DURATION\<close>. \<open>Some data\<close> is a hit.
\<close>

definition read_cache_try :: "client \<Rightarrow> jsstring \<Rightarrow> exn + js option" where
  "read_cache_try env cached =
     (case JSON_parse env cached of
        Inl e \<Rightarrow> Inl e
      | Inr v \<Rightarrow>
          (case get_prop v (str ''data'') of
             Inl e \<Rightarrow> Inl e
           | Inr d \<Rightarrow>
               (case get_prop v (str ''timestamp'') of
                  Inl e \<Rightarrow> Inl e
                | Inr ts \<Rightarrow>
                    (case to_number env ts of
                       None \<Rightarrow> Inr None
                     | Some t \<Rightarrow>
                         if now_read env - t < LOCALSTORAGE_DURATION then Inr (Some d)
                         else Inr None))))"

definition read_cache :: "client \<Rightarrow> storage \<Rightarrow> exn + js option" where
  "read_cache env ls =
     (case getItem ls LOCALSTORAGE_KEY of
        None \<Rightarrow> Inr None
      | Some cached \<Rightarrow>
          if cached = [] then Inr None
          else try_catch (read_cache_try env cached) (\<lambda>e. Inr None))"

text \<open>The envelope that is written, and the write with its own \<open>try\<close>/\<open>catch\<close>.\<close>

definition envelope :: "js \<Rightarrow> int \<Rightarrow> js" where
  "envelope lst now = Obj [(str ''data'', lst), (str ''timestamp'', Num now)]"

definition write_cache :: "client \<Rightarrow> storage \<Rightarrow> js \<Rightarrow> exn + storage" where
  "write_cache env ls lst =
     try_catch (setItem ls LOCALSTORAGE_KEY (JSON_stringify env (envelope lst (now_write env))))
       (\<lambda>e. Inr ls)"

text \<open>
  The effects of a run: the argument of \<open>setItems\<close> if it was called, the last argument of
  \<open>setIsLoading\<close>, \<open>localStorage\<close> afterwards, whether the request to the route was made, and
  the exception that left the block, if any.
\<close>

record effects =
  setItems :: "js option"
  setIsLoading :: "bool option"
  storage_after :: "exn + storage"
  requested :: bool
  raised :: "exn option"

text \<open>\<open>result.code === 200 && result.list.length > 0\<close>: \<open>Some\<close> of the list when it holds.\<close>

definition usable_list :: "client \<Rightarrow> js \<Rightarrow> exn + js option" where
  "usable_list env result =
     (case get_prop result (str ''code'') of
        Inl e \<Rightarrow> Inl e
      | Inr c \<Rightarrow>
          if c \<noteq> Num 200 then Inr None
          else (case get_prop result (str ''list'') of
                  Inl e \<Rightarrow> Inl e
                | Inr lst \<Rightarrow>
                    (case get_length lst of
                       Inl e \<Rightarrow> Inl e
                     | Inr n \<Rightarrow>
                         (case to_number env n of
                            None \<Rightarrow> Inr None
                          | Some k \<Rightarrow> if k > 0 then Inr (Some lst) else Inr None))))"

definition fetchTrending_try :: "client \<Rightarrow> effects" where
  "fetchTrending_try env =
     (case localStorage env of
        Inl e \<Rightarrow>
          \<lparr>setItems = None, setIsLoading = None, storage_after = Inl e, requested = False,
           raised = Some e\<rparr>
      | Inr ls \<Rightarrow>
          (case read_cache env ls of
             Inl e \<Rightarrow>
               \<lparr>setItems = None, setIsLoading = None, storage_after = Inr ls, requested = False,
                raised = Some e\<rparr>
           | Inr (Some d) \<Rightarrow>
               \<lparr>setItems = Some d, setIsLoading = Some False, storage_after = Inr ls,
                requested = False, raised = None\<rparr>
           | Inr None \<Rightarrow>
               (case api_result env of
                  Inl e \<Rightarrow>
                    \<lparr>setItems = None, setIsLoading = None, storage_after = Inr ls,
                     requested = True, raised = Some e\<rparr>
                | Inr result \<Rightarrow>
                    (case usable_list env result of
                       Inl e \<Rightarrow>
                         \<lparr>setItems = None, setIsLoading = None, storage_after = Inr ls,
                          requested = True, raised = Some e\<rparr>
                     | Inr None \<Rightarrow>
                         \<lparr>setItems = None, setIsLoading = None, storage_after = Inr ls,
                          requested = True, raised = None\<rparr>
                     | Inr (Some lst) \<Rightarrow>
                         \<lparr>setItems = Some lst, setIsLoading = None,
                          storage_after = write_cache env ls lst,
                          requested = True, raised = None\<rparr>))))"

text \<open>\<open>fetchTrending\<close>: the block, \<open>catch\<close> (the exception is logged) and \<open>finally\<close>.\<close>

definition fetchTrending :: "client \<Rightarrow> effects" where
  "fetchTrending env = (fetchTrending_try env)\<lparr>raised := None, setIsLoading := Some False\<rparr>"

section \<open>Concrete inputs\<close>

text \<open>Inputs on which the theorems below are run.\<close>

definition three_slides :: carousel where
  "three_slides = \<lparr>items = [Null, Null, Null], currentIndex = Some 0, isPaused = False,
     skipNextAutoPlay = False, isManualChange = False\<rparr>"

text \<open>The module state with the slot of a source emptied.\<close>

definition without_cache :: "jsstring \<Rightarrow> server_state \<Rightarrow> server_state" where
  "without_cache bannerDataSource st =
     (if bannerDataSource = str ''TX'' then st\<lparr>txCache := None\<rparr> else st\<lparr>tmdbCache := None\<rparr>)"

definition empty_state :: server_state where
  "empty_state = \<lparr>tmdbCache = None, txCache = None\<rparr>"

definition config_tx :: config where
  "config_tx = \<lparr>SiteConfig = Some \<lparr>BannerDataSource = Some (str ''TX''), TMDBApiKey = None, TMDBProxy = None\<rparr>\<rparr>"

definition config_tmdb :: "jsstring option \<Rightarrow> config" where
  "config_tmdb apiKey = \<lparr>SiteConfig = Some \<lparr>BannerDataSource = None, TMDBApiKey = apiKey, TMDBProxy = None\<rparr>\<rparr>"

definition sample_card :: "jsstring \<Rightarrow> jsstring \<Rightarrow> js" where
  "sample_card t img =
     Obj [(str ''params'',
           Obj [(str ''title'', Str t), (str ''rec_normal_reason'', Str (str ''new'')),
                (str ''topic_label'', Str (str ''drama|2024'')),
                (str ''priority_image_url'', Str img)])]"

definition sample_payload :: js where
  "sample_payload =
     Obj [(str ''data'',
       Obj [(str ''CardList'',
         Arr [Obj [(str ''type'', Str (str ''pc_nav''))],
              Obj [(str ''type'', Str (str ''pc_shelves'')),
                   (str ''children_list'',
                    Obj [(str ''list'',
                      Obj [(str ''cards'',
                        Arr [sample_card (str ''Show'') (str ''https://img/1.jpg''),
                             Obj [(str ''id'', Num 7)],
                             sample_card (str ''Free '' @ marker) (str ''https://img/2.jpg''),
                             sample_card (str ''Other'') [],
                             sample_card (str ''Film'') (str ''https://img/3.jpg'')])])])]])])]"

definition tmdb_client :: "jsstring \<Rightarrow> jsstring option \<Rightarrow> exn + js" where
  "tmdb_client apiKey proxy = Inr (Obj [(str ''code'', Num 200), (str ''list'', Arr [])])"

definition failing_client :: "jsstring \<Rightarrow> jsstring option \<Rightarrow> exn + js" where
  "failing_client apiKey proxy = Inl NetworkError"

definition sample_request :: "config \<Rightarrow> int \<Rightarrow> request" where
  "sample_request cfg now =
     \<lparr>getConfig = Inr cfg, now_check = now, now_store = now,
      tx_fetched = Inr \<lparr>ok = True, status = 200, json = Inr sample_payload\<rparr>,
      getTMDBTrendingContent = tmdb_client\<rparr>"

definition sample_entry :: cache_entry where
  "sample_entry = \<lparr>data = TXResult \<lparr>code = 200, list = []\<rparr>, timestamp = 1000\<rparr>"

definition tmdb_entry :: cache_entry where
  "tmdb_entry = \<lparr>data = TMDBResult (Arr []), timestamp = 1000\<rparr>"

definition cached_state :: server_state where
  "cached_state = \<lparr>tmdbCache = Some tmdb_entry, txCache = Some sample_entry\<rparr>"

definition failing_request :: "config \<Rightarrow> int \<Rightarrow> request" where
  "failing_request cfg now =
     \<lparr>getConfig = Inr cfg, now_check = now, now_store = now,
      tx_fetched = Inl NetworkError, getTMDBTrendingContent = failing_client\<rparr>"

definition broken_config_request :: request where
  "broken_config_request =
     \<lparr>getConfig = Inl NetworkError, now_check = 1000, now_store = 1000,
      tx_fetched = Inl NetworkError, getTMDBTrendingContent = failing_client\<rparr>"

definition payload_of_cards :: "js list \<Rightarrow> js" where
  "payload_of_cards cardList = Obj [(str ''data'', Obj [(str ''CardList'', Arr cardList)])]"

definition nav_card :: js where
  "nav_card = Obj [(str ''type'', Str (str ''pc_nav''))]"

definition bare_shelf_card :: js where
  "bare_shelf_card = Obj [(str ''type'', Str (str ''pc_shelves''))]"

definition sample_item :: "int \<Rightarrow> jsstring \<Rightarrow> jsstring \<Rightarrow> item" where
  "sample_item i t img =
     \<lparr>item_id = i, title = Str t, subtitle = Str (str ''new''),
      tags = [str ''drama'', str ''2024''], backdrop_path = Str img, poster_path = Str img,
      release_date = [], overview = Str (str ''new''), vote_average = 0,
      media_type = str ''tv'', genre_ids = []\<rparr>"

text \<open>
  For the browser cache: a list, the text that \<open>JSON.stringify\<close> makes of its envelope
  written at time 1000, and \<open>JSON.stringify\<close> and \<open>JSON.parse\<close> given as a table with that
  one entry; \<open>JSON.parse\<close> raises \<open>SyntaxError\<close> on any other text.
\<close>

definition sample_list :: js where
  "sample_list = Arr [Obj [(str ''title'', Str (str ''Show''))]]"

definition sample_text :: jsstring where
  \<open>sample_text = str ''{"data":[{"title":"Show"}],"timestamp":1000}''\<close>

definition table_stringify :: "js \<Rightarrow> jsstring" where
  "table_stringify v = (if v = envelope sample_list 1000 then sample_text else str ''null'')"

definition table_parse :: "jsstring \<Rightarrow> exn + js" where
  "table_parse s = (if s = sample_text then Inr (envelope sample_list 1000) else Inl SyntaxError)"

definition no_number :: "js \<Rightarrow> int option" where
  "no_number v = None"

definition writing_client :: client where
  "writing_client =
     \<lparr>localStorage = Inr empty_storage, JSON_parse = table_parse, JSON_stringify = table_stringify,
      ToNumber = no_number, now_read = 1000, now_write = 1000,
      api_result = Inr (Obj [(str ''code'', Num 200), (str ''list'', sample_list)])\<rparr>"

definition reading_client :: client where
  "reading_client =
     \<lparr>localStorage = storage_after (fetchTrending writing_client), JSON_parse = table_parse,
      JSON_stringify = table_stringify, ToNumber = no_number, now_read = 5000, now_write = 5000,
      api_result = Inl NetworkError\<rparr>"

definition corrupted_storage :: storage where
  "corrupted_storage = \<lparr>entries = [(LOCALSTORAGE_KEY, str ''{broken'')], admits = unlimited\<rparr>"

definition corrupted_client :: client where
  "corrupted_client =
     \<lparr>localStorage = Inr corrupted_storage, JSON_parse = table_parse, JSON_stringify = table_stringify,
      ToNumber = no_number, now_read = 5000, now_write = 5000,
      api_result = Inr (Obj [(str ''code'', Num 200), (str ''list'', sample_list)])\<rparr>"

section \<open>Decimal numerals\<close>


lemma digit_unit_props:
  assumes "d < 10"
  shows "isDigit (digit_unit d)" "digit_value (digit_unit d) = d"
    "\<not> isWhiteSpace (digit_unit d)" "digit_unit d \<noteq> 0x2D" "digit_unit d \<noteq> 0x2B"
proof -
  have "d \<in> {0,1,2,3,4,5,6,7,8,9}" using assms by auto
  then show "isDigit (digit_unit d)" "digit_value (digit_unit d) = d"
    "\<not> isWhiteSpace (digit_unit d)" "digit_unit d \<noteq> 0x2D" "digit_unit d \<noteq> 0x2B"
    by (auto simp: isDigit_def digit_unit_def digit_value_def isWhiteSpace_def)
qed

lemma digits_nonempty: "digits n \<noteq> []"
  by (subst digits.simps) simp

lemma digits_all_digit: "\<forall>c \<in> set (digits n). isDigit c"
proof (induction n rule: digits.induct)
  case (1 n)
  then show ?case
    by (subst digits.simps) (auto simp: digit_unit_props)
qed

lemma digits_value_snoc: "digits_value (ds @ [c]) = 10 * digits_value ds + digit_value c"
  by (simp add: digits_value_def)

lemma digits_value_digits: "digits_value (digits n) = n"
proof (induction n rule: digits.induct)
  case (1 n)
  show ?case
  proof (cases "n < 10")
    case True
    then show ?thesis by (subst digits.simps) (simp add: digits_value_def digit_unit_props)
  next
    case False
    then show ?thesis using 1
      by (subst digits.simps) (simp add: digits_value_snoc digit_unit_props)
  qed
qed

lemma isDigit_not_special: "isDigit c \<Longrightarrow> \<not> isWhiteSpace c \<and> c \<noteq> 0x2D \<and> c \<noteq> 0x2B"
  by (auto simp: isDigit_def isWhiteSpace_def)

lemma parseInt_all_digits:
  assumes "ds \<noteq> []" "\<forall>c \<in> set ds. isDigit c"
  shows "parseInt ds = Some (int (digits_value ds))"
proof -
  obtain c cs where cs: "ds = c # cs" using assms(1) by (cases ds) auto
  have c: "isDigit c" and rest: "\<forall>x \<in> set cs. isDigit x" using assms(2) cs by auto
  have tw: "takeWhile isDigit cs = cs"
    using rest by (simp add: takeWhile_eq_all_conv)
  show ?thesis
    using isDigit_not_special [OF c] c
    by (simp add: parseInt_def Let_def cs tw)
qed

lemma parseInt_digits: "parseInt (digits n) = Some (int n)"
  using parseInt_all_digits [OF digits_nonempty digits_all_digit, of n]
  by (simp add: digits_value_digits)

lemma parseInt_minus_digits: "parseInt (str ''-'' @ digits n) = Some (- int n)"
proof -
  have ws: "\<not> isWhiteSpace (0x2D :: code_unit)" by (simp add: isWhiteSpace_def)
  have tw: "takeWhile isDigit (digits n) = digits n"
    using digits_all_digit [of n] by (simp add: takeWhile_eq_all_conv)
  show ?thesis
    using ws
    by (simp add: parseInt_def str_def Let_def tw digits_value_digits digits_nonempty)
qed

lemma parseInt_toString: "parseInt (toString n) = Some n"
  by (simp add: toString_def parseInt_digits parseInt_minus_digits)


section \<open>Storage and the clearing loop\<close>


lemma map_of_put_entry: "map_of (put_entry k v es) k' = (if k' = k then Some v else map_of es k')"
  by (induction es) auto

lemma getItem_setItem:
  "setItem s k v = Inr s' \<Longrightarrow> getItem s' k' = (if k' = k then Some v else getItem s k')"
  by (auto simp: setItem_def getItem_def Let_def map_of_put_entry split: if_splits)

lemma setItem_admitted:
  "admits s (put_entry k v (entries s)) \<Longrightarrow> setItem s k v = Inr (s\<lparr>entries := put_entry k v (entries s)\<rparr>)"
  by (simp add: setItem_def Let_def)

lemma filter_filter_keys:
  "filter (\<lambda>e. fst e \<notin> set ks) (filter (\<lambda>e. fst e \<noteq> k) es) = filter (\<lambda>e. fst e \<notin> set (k # ks)) es"
  by (induction es) auto

lemma foldl_removeItem:
  "foldl removeItem s ks = s\<lparr>entries := filter (\<lambda>e. fst e \<notin> set ks) (entries s)\<rparr>"
proof (induction ks arbitrary: s)
  case Nil
  then show ?case by simp
next
  case (Cons k ks)
  have "foldl removeItem (removeItem s k) ks =
          s\<lparr>entries := filter (\<lambda>e. fst e \<notin> set ks) (filter (\<lambda>e. fst e \<noteq> k) (entries s))\<rparr>"
    by (simp add: Cons.IH removeItem_def)
  then show ?case by (simp only: filter_filter_keys foldl_Cons)
qed

lemma collect_keys_eq:
  "collect_keys s p i n acc =
     acc @ filter (\<lambda>k. k \<noteq> [] \<and> startsWith k p) (map fst (take n (drop i (entries s))))"
proof (induction n arbitrary: i acc)
  case 0
  then show ?case by simp
next
  case (Suc n)
  show ?case
  proof (cases "i < length (entries s)")
    case True
    then have d: "drop i (entries s) = (entries s ! i) # drop (Suc i) (entries s)"
      by (simp add: Cons_nth_drop_Suc)
    show ?thesis using True
      by (simp add: Suc.IH key_def d)
  next
    case False
    then show ?thesis by (simp add: Suc.IH key_def)
  qed
qed

lemma keys_with_prefix_eq:
  "keys_with_prefix s p = filter (\<lambda>k. k \<noteq> [] \<and> startsWith k p) (map fst (entries s))"
  by (simp add: keys_with_prefix_def collect_keys_eq storage_length_def)

lemma map_of_filter_keys:
  "map_of (filter (\<lambda>e. Q (fst e)) es) k = (if Q k then map_of es k else None)"
  by (induction es) auto

lemma filter_not_in_filtered_keys:
  "filter (\<lambda>e. fst e \<notin> set (filter P (map fst es))) es = filter (\<lambda>e. \<not> P (fst e)) es"
  by (rule filter_cong) auto

lemma filter_index_manual:
  "filter (\<lambda>e. \<not> P (fst e)) (filter (\<lambda>e. fst e \<noteq> k) es) = filter (\<lambda>e. fst e \<noteq> k \<and> \<not> P (fst e)) es"
  by (induction es) auto

lemma entries_clear:
  "clearDanmakuSelectionMemory (Window (Inr s)) t =
     Window (Inr (s\<lparr>entries := filter (\<lambda>e. fst e \<noteq> index_key t \<and> \<not> startsWith (fst e) (manual_prefix t)) (entries s)\<rparr>))"
proof -
  have np: "manual_prefix t \<noteq> []" by (simp add: manual_prefix_def str_def)
  have P: "(\<lambda>k. k \<noteq> [] \<and> startsWith k (manual_prefix t)) = (\<lambda>k. startsWith k (manual_prefix t))"
    using np by (auto simp: startsWith_def)
  have "filter (\<lambda>x. fst x \<noteq> index_key t \<and>
               (fst x \<in> fst ` {x \<in> set (entries s). fst x \<noteq> index_key t} \<longrightarrow>
                \<not> startsWith (fst x) (manual_prefix t))) (entries s) =
        filter (\<lambda>e. fst e \<noteq> index_key t \<and> \<not> startsWith (fst e) (manual_prefix t)) (entries s)"
    by (rule filter_cong) auto
  then show ?thesis
    by (simp add: clearDanmakuSelectionMemory_def Let_def foldl_removeItem keys_with_prefix_eq
        removeItem_def P)
qed


lemma prefix_sep:
  assumes "prefix (a @ [u]) (b @ [u] @ d)" "u \<notin> set d"
  shows "a = b \<or> prefix (a @ [u]) b"
proof -
  from assms(1) obtain r where "b @ u # d = a @ u # r"
    by (auto simp: prefix_def)
  then obtain us where "(b = a @ us \<and> us @ u # d = u # r) \<or> (b @ us = a \<and> u # d = us @ u # r)"
    by (auto simp: append_eq_append_conv2)
  then show ?thesis
  proof
    assume h: "b = a @ us \<and> us @ u # d = u # r"
    show ?thesis
    proof (cases us)
      case Nil
      then show ?thesis using h by simp
    next
      case (Cons x us')
      then show ?thesis using h by (simp add: prefix_def)
    qed
  next
    assume h: "b @ us = a \<and> u # d = us @ u # r"
    show ?thesis
    proof (cases us)
      case Nil
      then show ?thesis using h by simp
    next
      case (Cons x us')
      then have "d = us' @ u # r" using h by simp
      then show ?thesis using assms(2) by simp
    qed
  qed
qed

lemma digit_unit_not_underscore: "d < 10 \<Longrightarrow> digit_unit d \<noteq> 0x5F"
proof -
  assume "d < 10"
  then have "d \<in> {0,1,2,3,4,5,6,7,8,9}" by auto
  then show ?thesis by (auto simp: digit_unit_def)
qed

lemma underscore_notin_digits: "0x5F \<notin> set (digits n)"
proof (induction n rule: digits.induct)
  case (1 n)
  show ?case
  proof (cases "n < 10")
    case True
    then show ?thesis using digit_unit_not_underscore [of n]
      by (subst digits.simps) auto
  next
    case False
    then show ?thesis using 1 digit_unit_not_underscore [of "n mod 10"]
      by (subst digits.simps) auto
  qed
qed

lemma underscore_notin_toString: "0x5F \<notin> set (toString n)"
  by (simp add: toString_def underscore_notin_digits str_def)

lemma underscore_str: "str ''_'' = [0x5F]"
  by (simp add: str_def)

lemma manual_key_prefix:
  assumes "startsWith (manual_key t2 e) (manual_prefix t1)"
  shows "prefix (t1 @ str ''_'') (t2 @ str ''_'' @ toString e)"
  using assms by (simp add: startsWith_def manual_key_def manual_prefix_def)

lemma manual_key_not_cleared:
  assumes "t1 \<noteq> t2" "\<not> startsWith t2 (t1 @ str ''_'')"
  shows "\<not> startsWith (manual_key t2 e) (manual_prefix t1)"
proof
  assume "startsWith (manual_key t2 e) (manual_prefix t1)"
  then have "prefix (t1 @ [0x5F]) (t2 @ [0x5F] @ toString e)"
    using manual_key_prefix [of t2 e t1] by (simp only: underscore_str)
  then have "t1 = t2 \<or> prefix (t1 @ [0x5F]) t2"
    by (rule prefix_sep) (rule underscore_notin_toString)
  then show False using assms by (simp add: startsWith_def underscore_str)
qed

lemma keys_apart:
  "index_key t2 \<noteq> index_key t1 \<longleftrightarrow> t2 \<noteq> t1"
  "\<not> startsWith (index_key t2) (manual_prefix t1)"
  "manual_key t2 e \<noteq> index_key t1"
  by (auto simp: index_key_def manual_key_def manual_prefix_def str_def startsWith_def)

lemma getItem_cleared:
  "getItem (s\<lparr>entries := filter (\<lambda>e. fst e \<noteq> index_key t \<and> \<not> startsWith (fst e) (manual_prefix t)) (entries s)\<rparr>) k =
     (if k = index_key t \<or> startsWith k (manual_prefix t) then None else getItem s k)"
  using map_of_filter_keys [of "\<lambda>k. k \<noteq> index_key t \<and> \<not> startsWith k (manual_prefix t)" "entries s" k]
  by (auto simp: getItem_def)

lemma clear_frame:
  assumes "t1 \<noteq> t2" "\<not> startsWith t2 (t1 @ str ''_'')"
  shows "getDanmakuSourceIndex (clearDanmakuSelectionMemory g t1) t2 = getDanmakuSourceIndex g t2"
    and "getManualDanmakuSelection (clearDanmakuSelectionMemory g t1) t2 e = getManualDanmakuSelection g t2 e"
proof -
  show "getDanmakuSourceIndex (clearDanmakuSelectionMemory g t1) t2 = getDanmakuSourceIndex g t2"
  proof (cases g)
    case NoWindow
    then show ?thesis by (simp add: clearDanmakuSelectionMemory_def)
  next
    case (Window w)
    then show ?thesis
    proof (cases w)
      case (Inl x)
      then show ?thesis using Window by (simp add: clearDanmakuSelectionMemory_def)
    next
      case (Inr s)
      then show ?thesis using Window assms(1) keys_apart(1,2) [of t2 t1]
        by (simp add: entries_clear getDanmakuSourceIndex_def getItem_cleared)
    qed
  qed
  show "getManualDanmakuSelection (clearDanmakuSelectionMemory g t1) t2 e = getManualDanmakuSelection g t2 e"
  proof (cases g)
    case NoWindow
    then show ?thesis by (simp add: clearDanmakuSelectionMemory_def)
  next
    case (Window w)
    then show ?thesis
    proof (cases w)
      case (Inl x)
      then show ?thesis using Window by (simp add: clearDanmakuSelectionMemory_def)
    next
      case (Inr s)
      then show ?thesis using Window manual_key_not_cleared [OF assms] keys_apart(3) [of t2 e t1]
        by (simp add: entries_clear getManualDanmakuSelection_def getItem_cleared)
    qed
  qed
qed


section \<open>Selection memory: the claims\<close>

text \<open>
  C2, as the specification states it: saving a source index and reading it back under the
  same title returns the stored value. It fails for a negative index: the reader returns
  \<open>null\<close>.
\<close>

theorem save_get_negative_index_counterexample:
  "getDanmakuSourceIndex (saveDanmakuSourceIndex fresh_window (str ''A'') (- 1)) (str ''A'') = None"
  by (simp add: fresh_window_def empty_storage_def unlimited_def saveDanmakuSourceIndex_def
      getDanmakuSourceIndex_def setItem_def getItem_def Let_def parseInt_toString)

text \<open>
  C2, amended: in a window whose session storage takes the write, a saved source index
  that is a safe integer and not negative is read back under the same title, and a saved
  episode id that is a safe integer is read back under the same title and episode index.
\<close>

theorem save_get_round_trip:
  "(admits s (put_entry (index_key t) (toString i) (entries s)) \<and> isSafeInteger i \<and> 0 \<le> i \<longrightarrow>
      getDanmakuSourceIndex (saveDanmakuSourceIndex (Window (Inr s)) t i) t = Some i)
   \<and> (admits s (put_entry (manual_key t e) (toString n) (entries s)) \<and> isSafeInteger n \<longrightarrow>
      getManualDanmakuSelection (saveManualDanmakuSelection (Window (Inr s)) t e n) t e = Some n)"
  by (simp add: saveDanmakuSourceIndex_def getDanmakuSourceIndex_def saveManualDanmakuSelection_def
      getManualDanmakuSelection_def setItem_def getItem_def Let_def map_of_put_entry parseInt_toString)

theorem save_get_round_trip_witness:
  "(admits empty_storage (put_entry (index_key (str ''A'')) (toString 3) (entries empty_storage))
      \<and> isSafeInteger 3 \<and> (0::int) \<le> 3)
   \<and> getDanmakuSourceIndex (saveDanmakuSourceIndex (Window (Inr empty_storage)) (str ''A'') 3) (str ''A'') = Some 3
   \<and> (admits empty_storage (put_entry (manual_key (str ''A'') 2) (toString (- 7)) (entries empty_storage))
      \<and> isSafeInteger (- 7))
   \<and> getManualDanmakuSelection (saveManualDanmakuSelection (Window (Inr empty_storage)) (str ''A'') 2 (- 7)) (str ''A'') 2 = Some (- 7)"
  using save_get_round_trip [of empty_storage "str ''A''" 3 2 "- 7"]
  by (simp add: empty_storage_def unlimited_def isSafeInteger_def)

text \<open>
  C10: the two readers validate differently. The source-index reader returns a number
  exactly when the window has storage, a value is stored under the key, \<open>parseInt\<close> makes
  an integer of it and that integer is not negative; the manual-selection reader returns
  whatever integer \<open>parseInt\<close> makes of the stored value. So a negative source index that
  was saved reads back as \<open>null\<close>, and a negative episode id that was saved reads back as
  itself.
\<close>

theorem readers_validate_differently:
  "(getDanmakuSourceIndex g t = Some i \<longleftrightarrow>
      (\<exists>s v. g = Window (Inr s) \<and> getItem s (index_key t) = Some v \<and> parseInt v = Some i \<and> 0 \<le> i))
   \<and> (getManualDanmakuSelection g t e = Some n \<longleftrightarrow>
      (\<exists>s v. g = Window (Inr s) \<and> getItem s (manual_key t e) = Some v \<and> parseInt v = Some n))
   \<and> (j < 0 \<and> isSafeInteger j \<and> admits s0 (put_entry (index_key t) (toString j) (entries s0)) \<longrightarrow>
      getDanmakuSourceIndex (saveDanmakuSourceIndex (Window (Inr s0)) t j) t = None)
   \<and> (j < 0 \<and> isSafeInteger j \<and> admits s0 (put_entry (manual_key t e) (toString j) (entries s0)) \<longrightarrow>
      getManualDanmakuSelection (saveManualDanmakuSelection (Window (Inr s0)) t e j) t e = Some j)"
proof -
  have a: "getDanmakuSourceIndex g t = Some i \<longleftrightarrow>
      (\<exists>s v. g = Window (Inr s) \<and> getItem s (index_key t) = Some v \<and> parseInt v = Some i \<and> 0 \<le> i)"
    by (auto simp: getDanmakuSourceIndex_def split: global.splits sum.splits option.splits if_splits)
  have b: "getManualDanmakuSelection g t e = Some n \<longleftrightarrow>
      (\<exists>s v. g = Window (Inr s) \<and> getItem s (manual_key t e) = Some v \<and> parseInt v = Some n)"
    by (auto simp: getManualDanmakuSelection_def split: global.splits sum.splits option.splits)
  have c: "j < 0 \<and> isSafeInteger j \<and> admits s0 (put_entry (index_key t) (toString j) (entries s0)) \<longrightarrow>
      getDanmakuSourceIndex (saveDanmakuSourceIndex (Window (Inr s0)) t j) t = None"
    by (simp add: saveDanmakuSourceIndex_def getDanmakuSourceIndex_def setItem_def getItem_def
        Let_def map_of_put_entry parseInt_toString)
  have d: "j < 0 \<and> isSafeInteger j \<and> admits s0 (put_entry (manual_key t e) (toString j) (entries s0)) \<longrightarrow>
      getManualDanmakuSelection (saveManualDanmakuSelection (Window (Inr s0)) t e j) t e = Some j"
    by (simp add: saveManualDanmakuSelection_def getManualDanmakuSelection_def setItem_def getItem_def
        Let_def map_of_put_entry parseInt_toString)
  show ?thesis using a b c d by blast
qed

theorem readers_validate_differently_witness:
  "((- 4 :: int) < 0 \<and> isSafeInteger (- 4)
      \<and> admits empty_storage (put_entry (index_key (str ''A'')) (toString (- 4)) (entries empty_storage))
      \<and> admits empty_storage (put_entry (manual_key (str ''A'') 1) (toString (- 4)) (entries empty_storage)))
   \<and> getDanmakuSourceIndex (saveDanmakuSourceIndex (Window (Inr empty_storage)) (str ''A'') (- 4)) (str ''A'') = None
   \<and> getManualDanmakuSelection (saveManualDanmakuSelection (Window (Inr empty_storage)) (str ''A'') 1 (- 4)) (str ''A'') 1 = Some (- 4)"
  using readers_validate_differently [of _ "str ''A''" _ 1 _ "- 4" empty_storage]
  by (simp add: empty_storage_def unlimited_def isSafeInteger_def)

text \<open>
  C1: clearing the memory of title \<open>A\<close> after records were saved under \<open>A\<close> and under
  \<open>A_1\<close>. The source index of \<open>A_1\<close> is still there; its manual selection for episode 5,
  which was 42 before the clearing, is gone, because its key starts with the prefix that
  the loop removes for \<open>A\<close>.
\<close>

theorem clear_removes_manual_selection_of_other_title:
  "getManualDanmakuSelection
     (saveManualDanmakuSelection
       (saveDanmakuSourceIndex
         (saveManualDanmakuSelection
           (saveDanmakuSourceIndex fresh_window (str ''A'') 1)
           (str ''A'') 0 7)
         (str ''A_1'') 2)
       (str ''A_1'') 5 42)
     (str ''A_1'') 5 = Some 42
   \<and> getManualDanmakuSelection
     (clearDanmakuSelectionMemory
       (saveManualDanmakuSelection
         (saveDanmakuSourceIndex
           (saveManualDanmakuSelection
             (saveDanmakuSourceIndex fresh_window (str ''A'') 1)
             (str ''A'') 0 7)
           (str ''A_1'') 2)
         (str ''A_1'') 5 42)
       (str ''A''))
     (str ''A_1'') 5 = None
   \<and> getDanmakuSourceIndex
     (clearDanmakuSelectionMemory
       (saveManualDanmakuSelection
         (saveDanmakuSourceIndex
           (saveManualDanmakuSelection
             (saveDanmakuSourceIndex fresh_window (str ''A'') 1)
             (str ''A'') 0 7)
           (str ''A_1'') 2)
         (str ''A_1'') 5 42)
       (str ''A''))
     (str ''A_1'') = Some 2"
  by code_simp

section \<open>The carousel: the claim\<close>

lemma js_rem_nonneg: "0 \<le> a \<Longrightarrow> 0 < n \<Longrightarrow> js_rem a n = Some (a mod n)"
  by (cases "a = 0") (simp_all add: js_rem_def)

lemma js_rem_small: "0 \<le> a \<Longrightarrow> a < n \<Longrightarrow> js_rem a n = Some a"
  by (simp add: js_rem_nonneg)

lemma items_goToNext_pow: "items ((goToNext ^^ m) c) = items c"
  by (induction m) (simp_all add: goToNext_def)

lemma currentIndex_goToNext_pow:
  assumes "items c \<noteq> []" "currentIndex c = Some k" "0 \<le> k"
  shows "currentIndex ((goToNext ^^ m) c) =
           Some (if m = 0 then k else (k + int m) mod int (length (items c)))"
proof (induction m)
  case 0
  then show ?case using assms by simp
next
  case (Suc m)
  let ?n = "int (length (items c))"
  have n: "0 < ?n" using assms(1) by simp
  show ?case
  proof (cases "m = 0")
    case True
    then show ?thesis using assms n by (simp add: goToNext_def js_rem_nonneg)
  next
    case False
    then have "currentIndex ((goToNext ^^ m) c) = Some ((k + int m) mod ?n)"
      using Suc by simp
    moreover have "0 \<le> (k + int m) mod ?n" using n by simp
    ultimately have "currentIndex ((goToNext ^^ Suc m) c) = Some (((k + int m) mod ?n + 1) mod ?n)"
      using n by (simp add: goToNext_def items_goToNext_pow js_rem_nonneg)
    also have "((k + int m) mod ?n + 1) mod ?n = (k + int m + 1) mod ?n"
      by (rule mod_add_left_eq)
    also have "k + int m + 1 = k + int (Suc m)" by simp
    finally show ?thesis by simp
  qed
qed

text \<open>
  C6: the index arithmetic of the carousel. With N > 0 items and the index at k, 0 \<le> k < N,
  "next" puts the index at (k + 1) mod N and "previous" at (k - 1 + N) mod N, the items
  staying as they are; so m times "next" put it at (k + m) mod N, and from index 0, N times
  "next" bring it back to 0 and one "previous" puts it at N - 1.
\<close>

theorem carousel_next_previous:
  "items c \<noteq> [] \<and> currentIndex c = Some k \<and> 0 \<le> k \<and> k < int (length (items c)) \<longrightarrow>
     currentIndex (goToNext c) = Some ((k + 1) mod int (length (items c)))
     \<and> currentIndex (goToPrevious c) =
         Some ((k - 1 + int (length (items c))) mod int (length (items c)))
     \<and> items (goToNext c) = items c \<and> items (goToPrevious c) = items c
     \<and> (\<forall>m. currentIndex ((goToNext ^^ m) c) = Some ((k + int m) mod int (length (items c))))
     \<and> (k = 0 \<longrightarrow>
           currentIndex ((goToNext ^^ length (items c)) c) = Some 0
           \<and> currentIndex (goToPrevious c) = Some (int (length (items c)) - 1))"
proof (rule impI, elim conjE)
  let ?n = "int (length (items c))"
  assume ne: "items c \<noteq> []" and ix: "currentIndex c = Some k" and k0: "0 \<le> k" and kn: "k < ?n"
  have n: "0 < ?n" using ne by simp
  have nx: "currentIndex (goToNext c) = Some ((k + 1) mod ?n)"
    using ix k0 n by (simp add: goToNext_def js_rem_nonneg)
  have n1: "1 \<le> ?n" using ne by (cases "items c") simp_all
  have "0 \<le> k - 1 + ?n" using k0 n1 by linarith
  then have pv: "currentIndex (goToPrevious c) = Some ((k - 1 + ?n) mod ?n)"
    using ix n by (simp add: goToPrevious_def js_rem_nonneg)
  have it: "items (goToNext c) = items c" "items (goToPrevious c) = items c"
    by (simp_all add: goToNext_def goToPrevious_def)
  have km: "k mod ?n = k" using k0 kn by simp
  have tr: "\<forall>m. currentIndex ((goToNext ^^ m) c) = Some ((k + int m) mod ?n)"
  proof
    fix m
    show "currentIndex ((goToNext ^^ m) c) = Some ((k + int m) mod ?n)"
      using currentIndex_goToNext_pow [OF ne ix k0, of m] km by (cases "m = 0") simp_all
  qed
  have en: "k = 0 \<longrightarrow>
           currentIndex ((goToNext ^^ length (items c)) c) = Some 0
           \<and> currentIndex (goToPrevious c) = Some (?n - 1)"
  proof
    assume z: "k = 0"
    have a: "currentIndex ((goToNext ^^ length (items c)) c) = Some 0"
      using tr z by simp
    have "js_rem (?n - 1) ?n = Some (?n - 1)"
      using n by (intro js_rem_small) simp_all
    then have b: "currentIndex (goToPrevious c) = Some (?n - 1)"
      using ix z by (simp add: goToPrevious_def)
    show "currentIndex ((goToNext ^^ length (items c)) c) = Some 0
           \<and> currentIndex (goToPrevious c) = Some (?n - 1)"
      using a b by simp
  qed
  show "currentIndex (goToNext c) = Some ((k + 1) mod ?n)
     \<and> currentIndex (goToPrevious c) = Some ((k - 1 + ?n) mod ?n)
     \<and> items (goToNext c) = items c \<and> items (goToPrevious c) = items c
     \<and> (\<forall>m. currentIndex ((goToNext ^^ m) c) = Some ((k + int m) mod ?n))
     \<and> (k = 0 \<longrightarrow>
           currentIndex ((goToNext ^^ length (items c)) c) = Some 0
           \<and> currentIndex (goToPrevious c) = Some (?n - 1))"
    using nx pv it tr en by blast
qed

theorem carousel_next_previous_witness:
  "(items three_slides \<noteq> [] \<and> currentIndex three_slides = Some 0 \<and> (0::int) \<le> 0
      \<and> 0 < int (length (items three_slides)))
   \<and> currentIndex (goToNext three_slides) = Some 1
   \<and> currentIndex ((goToNext ^^ 2) three_slides) = Some 2
   \<and> currentIndex ((goToNext ^^ 3) three_slides) = Some 0
   \<and> currentIndex (goToPrevious three_slides) = Some 2"
proof -
  have h: "items three_slides \<noteq> [] \<and> currentIndex three_slides = Some 0 \<and> (0::int) \<le> 0
      \<and> 0 < int (length (items three_slides))"
    by (simp add: three_slides_def)
  have len: "length (items three_slides) = 3"
    by (simp add: three_slides_def)
  note T = carousel_next_previous [of three_slides 0]
  have c1: "currentIndex (goToNext three_slides) = Some ((0 + 1) mod int (length (items three_slides)))"
    using h T by blast
  have c2: "currentIndex ((goToNext ^^ 2) three_slides) = Some ((0 + int 2) mod int (length (items three_slides)))"
    using h T by blast
  have c3: "currentIndex ((goToNext ^^ length (items three_slides)) three_slides) = Some 0"
    using h T by blast
  have c4: "currentIndex (goToPrevious three_slides) = Some (int (length (items three_slides)) - 1)"
    using h T by blast
  show ?thesis
    using h c1 c2 c3 c4 by (simp add: len)
qed

section \<open>The trending route: the claims\<close>

lemma selected_other: "b \<noteq> str ''TX'' \<Longrightarrow> selected_cache b st = tmdbCache st"
  by (simp add: selected_cache_def)

lemma getTXBannerContent_total: "\<exists>r. getTXBannerContent f = Inr r"
  by (simp add: getTXBannerContent_def try_catch_def split: sum.splits)

lemma response_GET:
  "response (GET rq st) = (case fst (GET_try rq st) of Inl e \<Rightarrow> response_500 | Inr r \<Rightarrow> r)"
  by (simp add: GET_def split: prod.splits sum.splits)

lemma calls_GET: "calls (GET rq st) = snd (snd (GET_try rq st))"
  by (simp add: GET_def split: prod.splits sum.splits)

lemma state_GET: "state (GET rq st) = fst (snd (GET_try rq st))"
  by (simp add: GET_def split: prod.splits sum.splits)

lemma fetch_fresh_independent:
  "fst (fetch_fresh rq cfg st) = fst (fetch_fresh rq cfg st')"
  "snd (snd (fetch_fresh rq cfg st)) = snd (snd (fetch_fresh rq cfg st'))"
  by (simp_all add: fetch_fresh_def split: sum.splits option.splits)

lemma frame_GET:
  assumes "getConfig rq = Inr cfg"
  shows "bannerDataSource_of cfg = str ''TX'' \<Longrightarrow> tmdbCache (state (GET rq st)) = tmdbCache st"
    and "bannerDataSource_of cfg \<noteq> str ''TX'' \<Longrightarrow> txCache (state (GET rq st)) = txCache st"
  using assms
  by (auto simp: state_GET GET_try_def fetch_fresh_def split: sum.splits option.splits)

text \<open>
  C5, as the specification states it: a request 3 hours or more after the put treats the
  slot as absent and a fresh upstream fetch is performed. It fails for the slot of the
  metadata provider when the key is missing at that time: the entry is expired, the answer
  is the 400 error, and no upstream call is made.
\<close>

theorem expired_entry_without_fetch_counterexample:
  "getConfig (sample_request (config_tmdb None) 10801000) = Inr (config_tmdb None)
   \<and> selected_cache (bannerDataSource_of (config_tmdb None)) cached_state = Some tmdb_entry
   \<and> 3 * (60 * 60 * 1000) \<le> now_check (sample_request (config_tmdb None) 10801000) - timestamp tmdb_entry
   \<and> calls (GET (sample_request (config_tmdb None) 10801000) cached_state) = []
   \<and> http_status (response (GET (sample_request (config_tmdb None) 10801000) cached_state)) = 400"
  by code_simp

text \<open>
  C5, amended: the slot of the selected source. A request that called upstream and
  answered 200 has put its result in the slot with the time of the write, and a request
  leaves the slot of the other source as it was. With an entry in the slot, a request less
  than 3 hours (in milliseconds) after the entry's time is answered with the stored data,
  unchanged, with no upstream call and no change of state; a request 3 hours or more after
  it is answered as on an empty slot: the video portal is fetched, the metadata provider is
  fetched when its key is configured, and with the key missing the answer is the 400 error
  with no upstream call and no change of state.
\<close>

theorem ttl_cache_get_after_put:
  "(getConfig rq = Inr cfg \<and> calls (GET rq st) \<noteq> [] \<and> http_status (response (GET rq st)) = 200 \<longrightarrow>
      selected_cache (bannerDataSource_of cfg) (state (GET rq st)) =
        Some \<lparr>data = body (response (GET rq st)), timestamp = now_store rq\<rparr>)
   \<and> (getConfig rq = Inr cfg \<and> selected_cache (bannerDataSource_of cfg) st = Some c
        \<and> now_check rq - timestamp c < 3 * (60 * 60 * 1000) \<longrightarrow>
      GET rq st = \<lparr>response = NextResponse_json (data c), state = st, calls = []\<rparr>)
   \<and> (getConfig rq = Inr cfg \<and> selected_cache (bannerDataSource_of cfg) st = Some c
        \<and> 3 * (60 * 60 * 1000) \<le> now_check rq - timestamp c \<longrightarrow>
      response (GET rq st) = response (GET rq (without_cache (bannerDataSource_of cfg) st))
      \<and> calls (GET rq st) = calls (GET rq (without_cache (bannerDataSource_of cfg) st))
      \<and> (bannerDataSource_of cfg = str ''TX'' \<longrightarrow> calls (GET rq st) = [CallTX])
      \<and> (bannerDataSource_of cfg \<noteq> str ''TX'' \<and> apiKey_of cfg = Some k \<and> k \<noteq> [] \<longrightarrow>
            calls (GET rq st) = [CallTMDB k (proxy_of cfg)])
      \<and> (bannerDataSource_of cfg \<noteq> str ''TX'' \<and> missing (apiKey_of cfg) \<longrightarrow>
            GET rq st =
              \<lparr>response = \<lparr>body = ErrorBody 400 message_400, http_status = 400\<rparr>,
               state = st, calls = []\<rparr>))
   \<and> (getConfig rq = Inr cfg \<and> bannerDataSource_of cfg = str ''TX'' \<longrightarrow>
      tmdbCache (state (GET rq st)) = tmdbCache st)
   \<and> (getConfig rq = Inr cfg \<and> bannerDataSource_of cfg \<noteq> str ''TX'' \<longrightarrow>
      txCache (state (GET rq st)) = txCache st)"
proof -
  have A: "getConfig rq = Inr cfg \<and> calls (GET rq st) \<noteq> [] \<and> http_status (response (GET rq st)) = 200 \<longrightarrow>
      selected_cache (bannerDataSource_of cfg) (state (GET rq st)) =
        Some \<lparr>data = body (response (GET rq st)), timestamp = now_store rq\<rparr>"
    by (auto simp: GET_def GET_try_def fetch_fresh_def selected_cache_def NextResponse_json_def
        response_400_def response_500_def split: sum.splits option.splits if_splits)
  have B: "getConfig rq = Inr cfg \<and> selected_cache (bannerDataSource_of cfg) st = Some c
        \<and> now_check rq - timestamp c < 3 * (60 * 60 * 1000) \<longrightarrow>
      GET rq st = \<lparr>response = NextResponse_json (data c), state = st, calls = []\<rparr>"
    by (simp add: GET_def GET_try_def CACHE_DURATION_def)
  have C: "getConfig rq = Inr cfg \<and> selected_cache (bannerDataSource_of cfg) st = Some c
        \<and> 3 * (60 * 60 * 1000) \<le> now_check rq - timestamp c \<longrightarrow>
      response (GET rq st) = response (GET rq (without_cache (bannerDataSource_of cfg) st))
      \<and> calls (GET rq st) = calls (GET rq (without_cache (bannerDataSource_of cfg) st))
      \<and> (bannerDataSource_of cfg = str ''TX'' \<longrightarrow> calls (GET rq st) = [CallTX])
      \<and> (bannerDataSource_of cfg \<noteq> str ''TX'' \<and> apiKey_of cfg = Some k \<and> k \<noteq> [] \<longrightarrow>
            calls (GET rq st) = [CallTMDB k (proxy_of cfg)])
      \<and> (bannerDataSource_of cfg \<noteq> str ''TX'' \<and> missing (apiKey_of cfg) \<longrightarrow>
            GET rq st =
              \<lparr>response = \<lparr>body = ErrorBody 400 message_400, http_status = 400\<rparr>,
               state = st, calls = []\<rparr>)"
  proof (rule impI)
    assume a: "getConfig rq = Inr cfg \<and> selected_cache (bannerDataSource_of cfg) st = Some c
        \<and> 3 * (60 * 60 * 1000) \<le> now_check rq - timestamp c"
    then have m: "GET_try rq st = fetch_fresh rq cfg st"
      by (simp add: GET_try_def CACHE_DURATION_def)
    have m0: "GET_try rq (without_cache (bannerDataSource_of cfg) st) =
             fetch_fresh rq cfg (without_cache (bannerDataSource_of cfg) st)"
      using a by (simp add: GET_try_def without_cache_def selected_cache_def)
    have r: "response (GET rq st) = response (GET rq (without_cache (bannerDataSource_of cfg) st))"
      unfolding response_GET m m0
      using fetch_fresh_independent(1) [of rq cfg st "without_cache (bannerDataSource_of cfg) st"]
      by simp
    have cl: "calls (GET rq st) = calls (GET rq (without_cache (bannerDataSource_of cfg) st))"
      unfolding calls_GET m m0
      by (rule fetch_fresh_independent(2))
    have tx: "bannerDataSource_of cfg = str ''TX'' \<longrightarrow> calls (GET rq st) = [CallTX]"
      by (simp add: GET_def m fetch_fresh_def split: sum.splits)
    have ky: "bannerDataSource_of cfg \<noteq> str ''TX'' \<and> apiKey_of cfg = Some k \<and> k \<noteq> [] \<longrightarrow>
            calls (GET rq st) = [CallTMDB k (proxy_of cfg)]"
      by (simp add: GET_def m fetch_fresh_def split: sum.splits)
    have nk: "bannerDataSource_of cfg \<noteq> str ''TX'' \<and> missing (apiKey_of cfg) \<longrightarrow>
            GET rq st =
              \<lparr>response = \<lparr>body = ErrorBody 400 message_400, http_status = 400\<rparr>,
               state = st, calls = []\<rparr>"
      by (auto simp: GET_def m fetch_fresh_def missing_def response_400_def split: option.splits)
    show "response (GET rq st) = response (GET rq (without_cache (bannerDataSource_of cfg) st))
      \<and> calls (GET rq st) = calls (GET rq (without_cache (bannerDataSource_of cfg) st))
      \<and> (bannerDataSource_of cfg = str ''TX'' \<longrightarrow> calls (GET rq st) = [CallTX])
      \<and> (bannerDataSource_of cfg \<noteq> str ''TX'' \<and> apiKey_of cfg = Some k \<and> k \<noteq> [] \<longrightarrow>
            calls (GET rq st) = [CallTMDB k (proxy_of cfg)])
      \<and> (bannerDataSource_of cfg \<noteq> str ''TX'' \<and> missing (apiKey_of cfg) \<longrightarrow>
            GET rq st =
              \<lparr>response = \<lparr>body = ErrorBody 400 message_400, http_status = 400\<rparr>,
               state = st, calls = []\<rparr>)"
      using r cl tx ky nk by blast
  qed
  have D: "getConfig rq = Inr cfg \<and> bannerDataSource_of cfg = str ''TX'' \<longrightarrow>
      tmdbCache (state (GET rq st)) = tmdbCache st"
    using frame_GET(1) by blast
  have E: "getConfig rq = Inr cfg \<and> bannerDataSource_of cfg \<noteq> str ''TX'' \<longrightarrow>
      txCache (state (GET rq st)) = txCache st"
    using frame_GET(2) by blast
  show ?thesis using A B C D E by blast
qed

theorem ttl_cache_get_after_put_witness:
  "((getConfig (sample_request config_tx 1000) = Inr config_tx
      \<and> calls (GET (sample_request config_tx 1000) empty_state) \<noteq> []
      \<and> http_status (response (GET (sample_request config_tx 1000) empty_state)) = 200)
    \<and> selected_cache (bannerDataSource_of config_tx) (state (GET (sample_request config_tx 1000) empty_state)) =
        Some \<lparr>data = body (response (GET (sample_request config_tx 1000) empty_state)),
              timestamp = now_store (sample_request config_tx 1000)\<rparr>)
   \<and> ((getConfig (sample_request config_tx 2000) = Inr config_tx
      \<and> selected_cache (bannerDataSource_of config_tx) cached_state = Some sample_entry
      \<and> now_check (sample_request config_tx 2000) - timestamp sample_entry < 3 * (60 * 60 * 1000))
    \<and> GET (sample_request config_tx 2000) cached_state =
        \<lparr>response = NextResponse_json (data sample_entry), state = cached_state, calls = []\<rparr>)
   \<and> ((getConfig (sample_request config_tx 10801000) = Inr config_tx
      \<and> selected_cache (bannerDataSource_of config_tx) cached_state = Some sample_entry
      \<and> 3 * (60 * 60 * 1000) \<le> now_check (sample_request config_tx 10801000) - timestamp sample_entry)
    \<and> calls (GET (sample_request config_tx 10801000) cached_state) = [CallTX])
   \<and> ((getConfig (sample_request (config_tmdb (Some (str ''k''))) 1000) = Inr (config_tmdb (Some (str ''k'')))
      \<and> calls (GET (sample_request (config_tmdb (Some (str ''k''))) 1000) empty_state) \<noteq> []
      \<and> http_status (response (GET (sample_request (config_tmdb (Some (str ''k''))) 1000) empty_state)) = 200)
    \<and> selected_cache (bannerDataSource_of (config_tmdb (Some (str ''k''))))
         (state (GET (sample_request (config_tmdb (Some (str ''k''))) 1000) empty_state)) =
        Some \<lparr>data = body (response (GET (sample_request (config_tmdb (Some (str ''k''))) 1000) empty_state)),
              timestamp = now_store (sample_request (config_tmdb (Some (str ''k''))) 1000)\<rparr>)
   \<and> ((getConfig (sample_request (config_tmdb (Some (str ''k''))) 2000) = Inr (config_tmdb (Some (str ''k'')))
      \<and> selected_cache (bannerDataSource_of (config_tmdb (Some (str ''k'')))) cached_state = Some tmdb_entry
      \<and> now_check (sample_request (config_tmdb (Some (str ''k''))) 2000) - timestamp tmdb_entry
           < 3 * (60 * 60 * 1000))
    \<and> GET (sample_request (config_tmdb (Some (str ''k''))) 2000) cached_state =
        \<lparr>response = NextResponse_json (data tmdb_entry), state = cached_state, calls = []\<rparr>)
   \<and> ((getConfig (sample_request (config_tmdb (Some (str ''k''))) 10801000) = Inr (config_tmdb (Some (str ''k'')))
      \<and> selected_cache (bannerDataSource_of (config_tmdb (Some (str ''k'')))) cached_state = Some tmdb_entry
      \<and> 3 * (60 * 60 * 1000)
           \<le> now_check (sample_request (config_tmdb (Some (str ''k''))) 10801000) - timestamp tmdb_entry
      \<and> bannerDataSource_of (config_tmdb (Some (str ''k''))) \<noteq> str ''TX''
      \<and> apiKey_of (config_tmdb (Some (str ''k''))) = Some (str ''k'') \<and> str ''k'' \<noteq> [])
    \<and> calls (GET (sample_request (config_tmdb (Some (str ''k''))) 10801000) cached_state) =
        [CallTMDB (str ''k'') (proxy_of (config_tmdb (Some (str ''k''))))])
   \<and> ((getConfig (sample_request (config_tmdb None) 10801000) = Inr (config_tmdb None)
      \<and> selected_cache (bannerDataSource_of (config_tmdb None)) cached_state = Some tmdb_entry
      \<and> 3 * (60 * 60 * 1000) \<le> now_check (sample_request (config_tmdb None) 10801000) - timestamp tmdb_entry
      \<and> bannerDataSource_of (config_tmdb None) \<noteq> str ''TX''
      \<and> missing (apiKey_of (config_tmdb None)))
    \<and> GET (sample_request (config_tmdb None) 10801000) cached_state =
        \<lparr>response = \<lparr>body = ErrorBody 400 message_400, http_status = 400\<rparr>,
         state = cached_state, calls = []\<rparr>)"
proof -
  have src: "bannerDataSource_of config_tx = str ''TX''"
    by (simp add: bannerDataSource_of_def config_tx_def string_or_def str_def)
  have h1: "getConfig (sample_request config_tx 1000) = Inr config_tx
      \<and> calls (GET (sample_request config_tx 1000) empty_state) \<noteq> []
      \<and> http_status (response (GET (sample_request config_tx 1000) empty_state)) = 200"
    by code_simp
  have h2: "getConfig (sample_request config_tx 2000) = Inr config_tx
      \<and> selected_cache (bannerDataSource_of config_tx) cached_state = Some sample_entry
      \<and> now_check (sample_request config_tx 2000) - timestamp sample_entry < 3 * (60 * 60 * 1000)"
    by (simp add: src sample_request_def selected_cache_def cached_state_def sample_entry_def)
  have h3: "getConfig (sample_request config_tx 10801000) = Inr config_tx
      \<and> selected_cache (bannerDataSource_of config_tx) cached_state = Some sample_entry
      \<and> 3 * (60 * 60 * 1000) \<le> now_check (sample_request config_tx 10801000) - timestamp sample_entry"
    by (simp add: src sample_request_def selected_cache_def cached_state_def sample_entry_def)
  have h4: "getConfig (sample_request (config_tmdb (Some (str ''k''))) 1000) = Inr (config_tmdb (Some (str ''k'')))
      \<and> calls (GET (sample_request (config_tmdb (Some (str ''k''))) 1000) empty_state) \<noteq> []
      \<and> http_status (response (GET (sample_request (config_tmdb (Some (str ''k''))) 1000) empty_state)) = 200"
    by code_simp
  have h5: "getConfig (sample_request (config_tmdb (Some (str ''k''))) 2000) = Inr (config_tmdb (Some (str ''k'')))
      \<and> selected_cache (bannerDataSource_of (config_tmdb (Some (str ''k'')))) cached_state = Some tmdb_entry
      \<and> now_check (sample_request (config_tmdb (Some (str ''k''))) 2000) - timestamp tmdb_entry
           < 3 * (60 * 60 * 1000)"
    by (simp add: sample_request_def config_tmdb_def bannerDataSource_of_def string_or_def str_def
        selected_cache_def cached_state_def tmdb_entry_def)
  have h6: "getConfig (sample_request (config_tmdb (Some (str ''k''))) 10801000) = Inr (config_tmdb (Some (str ''k'')))
      \<and> selected_cache (bannerDataSource_of (config_tmdb (Some (str ''k'')))) cached_state = Some tmdb_entry
      \<and> 3 * (60 * 60 * 1000)
           \<le> now_check (sample_request (config_tmdb (Some (str ''k''))) 10801000) - timestamp tmdb_entry
      \<and> bannerDataSource_of (config_tmdb (Some (str ''k''))) \<noteq> str ''TX''
      \<and> apiKey_of (config_tmdb (Some (str ''k''))) = Some (str ''k'') \<and> str ''k'' \<noteq> []"
    by (simp add: sample_request_def config_tmdb_def bannerDataSource_of_def string_or_def str_def
        selected_cache_def cached_state_def tmdb_entry_def apiKey_of_def)
  have h7: "getConfig (sample_request (config_tmdb None) 10801000) = Inr (config_tmdb None)
      \<and> selected_cache (bannerDataSource_of (config_tmdb None)) cached_state = Some tmdb_entry
      \<and> 3 * (60 * 60 * 1000) \<le> now_check (sample_request (config_tmdb None) 10801000) - timestamp tmdb_entry
      \<and> bannerDataSource_of (config_tmdb None) \<noteq> str ''TX''
      \<and> missing (apiKey_of (config_tmdb None))"
    by (simp add: sample_request_def config_tmdb_def bannerDataSource_of_def string_or_def str_def
        selected_cache_def cached_state_def tmdb_entry_def apiKey_of_def missing_def)
  have c1: "selected_cache (bannerDataSource_of config_tx) (state (GET (sample_request config_tx 1000) empty_state)) =
        Some \<lparr>data = body (response (GET (sample_request config_tx 1000) empty_state)),
              timestamp = now_store (sample_request config_tx 1000)\<rparr>"
    using h1 ttl_cache_get_after_put [of "sample_request config_tx 1000" config_tx empty_state]
    by blast
  have c2: "GET (sample_request config_tx 2000) cached_state =
        \<lparr>response = NextResponse_json (data sample_entry), state = cached_state, calls = []\<rparr>"
    using h2 ttl_cache_get_after_put [of "sample_request config_tx 2000" config_tx cached_state sample_entry]
    by blast
  have c3: "calls (GET (sample_request config_tx 10801000) cached_state) = [CallTX]"
    using h3 src ttl_cache_get_after_put [of "sample_request config_tx 10801000" config_tx cached_state sample_entry]
    by blast
  have c4: "selected_cache (bannerDataSource_of (config_tmdb (Some (str ''k''))))
         (state (GET (sample_request (config_tmdb (Some (str ''k''))) 1000) empty_state)) =
        Some \<lparr>data = body (response (GET (sample_request (config_tmdb (Some (str ''k''))) 1000) empty_state)),
              timestamp = now_store (sample_request (config_tmdb (Some (str ''k''))) 1000)\<rparr>"
    using h4 ttl_cache_get_after_put [of "sample_request (config_tmdb (Some (str ''k''))) 1000"
        "config_tmdb (Some (str ''k''))" empty_state]
    by blast
  have c5: "GET (sample_request (config_tmdb (Some (str ''k''))) 2000) cached_state =
        \<lparr>response = NextResponse_json (data tmdb_entry), state = cached_state, calls = []\<rparr>"
    using h5 ttl_cache_get_after_put [of "sample_request (config_tmdb (Some (str ''k''))) 2000"
        "config_tmdb (Some (str ''k''))" cached_state tmdb_entry]
    by blast
  have c6: "calls (GET (sample_request (config_tmdb (Some (str ''k''))) 10801000) cached_state) =
        [CallTMDB (str ''k'') (proxy_of (config_tmdb (Some (str ''k''))))]"
    using h6 ttl_cache_get_after_put [of "sample_request (config_tmdb (Some (str ''k''))) 10801000"
        "config_tmdb (Some (str ''k''))" cached_state tmdb_entry "str ''k''"]
    by blast
  have c7: "GET (sample_request (config_tmdb None) 10801000) cached_state =
        \<lparr>response = \<lparr>body = ErrorBody 400 message_400, http_status = 400\<rparr>,
         state = cached_state, calls = []\<rparr>"
    using h7 ttl_cache_get_after_put [of "sample_request (config_tmdb None) 10801000"
        "config_tmdb None" cached_state tmdb_entry]
    by blast
  show ?thesis
    using h1 h2 h3 h4 h5 h6 h7 c1 c2 c3 c4 c5 c6 c7 by blast
qed

text \<open>
  C8, as the specification states it: whenever the key of the metadata provider is
  missing, the answer is the 400 error. It fails when the video portal is the selected
  source: the key is never looked at, and the answer has status 200.
\<close>

theorem missing_key_without_400_counterexample:
  "missing (apiKey_of config_tx)
   \<and> getConfig (sample_request config_tx 1000) = Inr config_tx
   \<and> http_status (response (GET (sample_request config_tx 1000) empty_state)) = 200"
  by code_simp

text \<open>
  C8, amended: when the selected source is not the video portal, its slot is empty or
  expired and the key is missing, the answer is \<open>{ code: 400, message }\<close> with status 400;
  when the configuration loader raises, or the metadata-provider client raises on such a
  miss, the answer is \<open>{ code: 500, message }\<close> with status 500.
\<close>

theorem get_error_mapping:
  "(getConfig rq = Inr cfg \<and> bannerDataSource_of cfg \<noteq> str ''TX'' \<and> missing (apiKey_of cfg)
      \<and> (tmdbCache st = None
          \<or> (\<exists>c. tmdbCache st = Some c \<and> 3 * (60 * 60 * 1000) \<le> now_check rq - timestamp c)) \<longrightarrow>
      response (GET rq st) = \<lparr>body = ErrorBody 400 message_400, http_status = 400\<rparr>)
   \<and> (getConfig rq = Inl e \<longrightarrow>
      response (GET rq st) = \<lparr>body = ErrorBody 500 message_500, http_status = 500\<rparr>)
   \<and> (getConfig rq = Inr cfg \<and> bannerDataSource_of cfg \<noteq> str ''TX''
      \<and> apiKey_of cfg = Some k \<and> k \<noteq> []
      \<and> (tmdbCache st = None
          \<or> (\<exists>c. tmdbCache st = Some c \<and> 3 * (60 * 60 * 1000) \<le> now_check rq - timestamp c))
      \<and> getTMDBTrendingContent rq k (proxy_of cfg) = Inl e \<longrightarrow>
      response (GET rq st) = \<lparr>body = ErrorBody 500 message_500, http_status = 500\<rparr>)"
proof (intro conjI impI)
  assume a: "getConfig rq = Inr cfg \<and> bannerDataSource_of cfg \<noteq> str ''TX'' \<and> missing (apiKey_of cfg)
      \<and> (tmdbCache st = None
          \<or> (\<exists>c. tmdbCache st = Some c \<and> 3 * (60 * 60 * 1000) \<le> now_check rq - timestamp c))"
  then have "GET_try rq st = fetch_fresh rq cfg st"
    by (auto simp: GET_try_def selected_other CACHE_DURATION_def)
  moreover have "fst (fetch_fresh rq cfg st) = Inr response_400"
    using a by (auto simp: fetch_fresh_def missing_def split: option.splits)
  ultimately show "response (GET rq st) = \<lparr>body = ErrorBody 400 message_400, http_status = 400\<rparr>"
    by (simp add: response_GET response_400_def)
next
  assume "getConfig rq = Inl e"
  then show "response (GET rq st) = \<lparr>body = ErrorBody 500 message_500, http_status = 500\<rparr>"
    by (simp add: response_GET GET_try_def response_500_def)
next
  assume a: "getConfig rq = Inr cfg \<and> bannerDataSource_of cfg \<noteq> str ''TX''
      \<and> apiKey_of cfg = Some k \<and> k \<noteq> []
      \<and> (tmdbCache st = None
          \<or> (\<exists>c. tmdbCache st = Some c \<and> 3 * (60 * 60 * 1000) \<le> now_check rq - timestamp c))
      \<and> getTMDBTrendingContent rq k (proxy_of cfg) = Inl e"
  then have "GET_try rq st = fetch_fresh rq cfg st"
    by (auto simp: GET_try_def selected_other CACHE_DURATION_def)
  moreover have "fst (fetch_fresh rq cfg st) = Inl e"
    using a by (simp add: fetch_fresh_def)
  ultimately show "response (GET rq st) = \<lparr>body = ErrorBody 500 message_500, http_status = 500\<rparr>"
    by (simp add: response_GET response_500_def)
qed

theorem get_error_mapping_witness:
  "((getConfig (sample_request (config_tmdb None) 1000) = Inr (config_tmdb None)
       \<and> bannerDataSource_of (config_tmdb None) \<noteq> str ''TX'' \<and> missing (apiKey_of (config_tmdb None))
       \<and> tmdbCache empty_state = None)
     \<and> response (GET (sample_request (config_tmdb None) 1000) empty_state) =
         \<lparr>body = ErrorBody 400 message_400, http_status = 400\<rparr>)
   \<and> (getConfig broken_config_request = Inl NetworkError
     \<and> response (GET broken_config_request empty_state) =
         \<lparr>body = ErrorBody 500 message_500, http_status = 500\<rparr>)
   \<and> ((getConfig (failing_request (config_tmdb (Some (str ''k''))) 1000) = Inr (config_tmdb (Some (str ''k'')))
       \<and> bannerDataSource_of (config_tmdb (Some (str ''k''))) \<noteq> str ''TX''
       \<and> apiKey_of (config_tmdb (Some (str ''k''))) = Some (str ''k'') \<and> str ''k'' \<noteq> []
       \<and> tmdbCache empty_state = None
       \<and> getTMDBTrendingContent (failing_request (config_tmdb (Some (str ''k''))) 1000) (str ''k'')
            (proxy_of (config_tmdb (Some (str ''k'')))) = Inl NetworkError)
     \<and> response (GET (failing_request (config_tmdb (Some (str ''k''))) 1000) empty_state) =
         \<lparr>body = ErrorBody 500 message_500, http_status = 500\<rparr>)"
proof -
  have h1: "getConfig (sample_request (config_tmdb None) 1000) = Inr (config_tmdb None)
       \<and> bannerDataSource_of (config_tmdb None) \<noteq> str ''TX'' \<and> missing (apiKey_of (config_tmdb None))
       \<and> tmdbCache empty_state = None"
    by (simp add: sample_request_def config_tmdb_def bannerDataSource_of_def string_or_def str_def
        missing_def apiKey_of_def empty_state_def)
  have h2: "getConfig broken_config_request = Inl NetworkError"
    by (simp add: broken_config_request_def)
  have h3: "getConfig (failing_request (config_tmdb (Some (str ''k''))) 1000) = Inr (config_tmdb (Some (str ''k'')))
       \<and> bannerDataSource_of (config_tmdb (Some (str ''k''))) \<noteq> str ''TX''
       \<and> apiKey_of (config_tmdb (Some (str ''k''))) = Some (str ''k'') \<and> str ''k'' \<noteq> []
       \<and> tmdbCache empty_state = None
       \<and> getTMDBTrendingContent (failing_request (config_tmdb (Some (str ''k''))) 1000) (str ''k'')
            (proxy_of (config_tmdb (Some (str ''k'')))) = Inl NetworkError"
    by (simp add: failing_request_def config_tmdb_def bannerDataSource_of_def string_or_def str_def
        apiKey_of_def empty_state_def failing_client_def)
  have c1: "response (GET (sample_request (config_tmdb None) 1000) empty_state) =
         \<lparr>body = ErrorBody 400 message_400, http_status = 400\<rparr>"
    using h1 get_error_mapping [of "sample_request (config_tmdb None) 1000" "config_tmdb None" empty_state]
    by blast
  have c2: "response (GET broken_config_request empty_state) =
         \<lparr>body = ErrorBody 500 message_500, http_status = 500\<rparr>"
    using h2 get_error_mapping [of broken_config_request _ empty_state NetworkError]
    by blast
  have c3: "response (GET (failing_request (config_tmdb (Some (str ''k''))) 1000) empty_state) =
         \<lparr>body = ErrorBody 500 message_500, http_status = 500\<rparr>"
    using h3 get_error_mapping [of "failing_request (config_tmdb (Some (str ''k''))) 1000"
         "config_tmdb (Some (str ''k''))" empty_state NetworkError "str ''k''"]
    by blast
  show ?thesis
    using h1 h2 h3 c1 c2 c3 by blast
qed

text \<open>
  C9: the cache is consulted before the key. With the key missing and an unexpired entry
  in the slot of the selected source, the answer is the stored data with status 200; and
  an answer with status 400 is given only when the configuration was loaded, the source
  is not the video portal, the key is missing and the slot of the metadata provider is
  empty or expired.
\<close>

theorem cache_before_configuration:
  "(getConfig rq = Inr cfg \<and> missing (apiKey_of cfg)
      \<and> selected_cache (bannerDataSource_of cfg) st = Some c
      \<and> now_check rq - timestamp c < 3 * (60 * 60 * 1000) \<longrightarrow>
      response (GET rq st) = \<lparr>body = data c, http_status = 200\<rparr>)
   \<and> (http_status (response (GET rq st)) = 400 \<longrightarrow>
      (\<exists>cfg'. getConfig rq = Inr cfg' \<and> bannerDataSource_of cfg' \<noteq> str ''TX''
         \<and> missing (apiKey_of cfg')
         \<and> (tmdbCache st = None
             \<or> (\<exists>c'. tmdbCache st = Some c' \<and> 3 * (60 * 60 * 1000) \<le> now_check rq - timestamp c'))))"
proof (intro conjI impI)
  assume "getConfig rq = Inr cfg \<and> missing (apiKey_of cfg)
      \<and> selected_cache (bannerDataSource_of cfg) st = Some c
      \<and> now_check rq - timestamp c < 3 * (60 * 60 * 1000)"
  then show "response (GET rq st) = \<lparr>body = data c, http_status = 200\<rparr>"
    by (simp add: response_GET GET_try_def CACHE_DURATION_def NextResponse_json_def)
next
  assume a: "http_status (response (GET rq st)) = 400"
  show "\<exists>cfg'. getConfig rq = Inr cfg' \<and> bannerDataSource_of cfg' \<noteq> str ''TX''
         \<and> missing (apiKey_of cfg')
         \<and> (tmdbCache st = None
             \<or> (\<exists>c'. tmdbCache st = Some c' \<and> 3 * (60 * 60 * 1000) \<le> now_check rq - timestamp c'))"
  proof (cases "getConfig rq")
    case (Inl e)
    then show ?thesis using a by (simp add: response_GET GET_try_def response_500_def)
  next
    case (Inr cfg')
    show ?thesis
    proof (cases "bannerDataSource_of cfg' = str ''TX''")
      case True
      then show ?thesis using a Inr
        by (auto simp: response_GET GET_try_def fetch_fresh_def response_500_def NextResponse_json_def
            split: option.splits sum.splits if_splits)
    next
      case False
      then show ?thesis using a Inr
        by (auto simp: response_GET GET_try_def fetch_fresh_def response_500_def NextResponse_json_def
            selected_other missing_def CACHE_DURATION_def
            split: option.splits sum.splits if_splits)
    qed
  qed
qed

theorem cache_before_configuration_witness:
  "((getConfig (sample_request (config_tmdb None) 2000) = Inr (config_tmdb None)
       \<and> missing (apiKey_of (config_tmdb None))
       \<and> selected_cache (bannerDataSource_of (config_tmdb None)) cached_state = Some tmdb_entry
       \<and> now_check (sample_request (config_tmdb None) 2000) - timestamp tmdb_entry < 3 * (60 * 60 * 1000))
     \<and> response (GET (sample_request (config_tmdb None) 2000) cached_state) =
         \<lparr>body = data tmdb_entry, http_status = 200\<rparr>)
   \<and> (http_status (response (GET (sample_request (config_tmdb None) 2000) empty_state)) = 400
     \<and> (\<exists>cfg'. getConfig (sample_request (config_tmdb None) 2000) = Inr cfg'
          \<and> bannerDataSource_of cfg' \<noteq> str ''TX'' \<and> missing (apiKey_of cfg')))"
proof -
  have h1: "getConfig (sample_request (config_tmdb None) 2000) = Inr (config_tmdb None)
       \<and> missing (apiKey_of (config_tmdb None))
       \<and> selected_cache (bannerDataSource_of (config_tmdb None)) cached_state = Some tmdb_entry
       \<and> now_check (sample_request (config_tmdb None) 2000) - timestamp tmdb_entry < 3 * (60 * 60 * 1000)"
    by (simp add: sample_request_def config_tmdb_def bannerDataSource_of_def string_or_def str_def
        missing_def apiKey_of_def selected_cache_def cached_state_def tmdb_entry_def)
  have h2: "http_status (response (GET (sample_request (config_tmdb None) 2000) empty_state)) = 400"
    by code_simp
  have c1: "response (GET (sample_request (config_tmdb None) 2000) cached_state) =
         \<lparr>body = data tmdb_entry, http_status = 200\<rparr>"
    using h1 cache_before_configuration [of "sample_request (config_tmdb None) 2000" "config_tmdb None" cached_state tmdb_entry]
    by blast
  have c2: "\<exists>cfg'. getConfig (sample_request (config_tmdb None) 2000) = Inr cfg'
          \<and> bannerDataSource_of cfg' \<noteq> str ''TX'' \<and> missing (apiKey_of cfg')"
    using h2 cache_before_configuration [of "sample_request (config_tmdb None) 2000" _ empty_state]
    by blast
  show ?thesis
    using h1 h2 c1 c2 by blast
qed

section \<open>The video-portal adapter: the claims\<close>

lemma parseTXBannerData_returns: "\<exists>its. parseTXBannerData d = Inr its"
  by (simp add: parseTXBannerData_def try_catch_def split: sum.splits)

lemma parseTXBannerData_raise: "parseTXBannerData_try d = Inl e \<Longrightarrow> parseTXBannerData d = Inr []"
  by (simp add: parseTXBannerData_def try_catch_def)

lemma find_card_no_shelf:
  "\<forall>c \<in> set cl. get_prop c (str ''type'') \<noteq> Inr (Str (str ''pc_shelves'')) \<Longrightarrow>
   find_card cl = Inr Undefined \<or> (\<exists>e. find_card cl = Inl e)"
  by (induction cl) (auto split: sum.splits)

lemma get_prop_truthy:
  "get_prop v name = Inr t \<Longrightarrow> truthy t \<Longrightarrow> \<exists>ps. v = Obj ps \<and> map_of ps name = Some t"
  by (cases v) (auto split: option.splits)

lemma or_else_truthy: "truthy (or_else t (Str [])) \<Longrightarrow> truthy t \<and> or_else t (Str []) = t"
  by (auto simp: or_else_def split: if_splits)

lemma banner_item_fields:
  assumes "banner_item c j = Inr it"
  shows "\<exists>params t img. get_prop c (str ''params'') = Inr params
           \<and> get_prop params (str ''title'') = Inr t \<and> title it = or_else t (Str [])
           \<and> get_prop params (str ''priority_image_url'') = Inr img
           \<and> backdrop_path it = or_else img (Str [])"
  using assms by (auto simp: banner_item_def split: sum.splits)

lemma map_items_origin:
  "map_items cs j = Inr its \<Longrightarrow> it \<in> set its \<Longrightarrow> \<exists>c \<in> set cs. \<exists>k. banner_item c k = Inr it"
proof (induction cs arbitrary: j its)
  case Nil
  then show ?case by simp
next
  case (Cons c cs)
  then show ?case by (fastforce split: sum.splits)
qed

lemma filter_params_subset: "filter_params cs = Inr kept \<Longrightarrow> set kept \<subseteq> set cs"
proof (induction cs arbitrary: kept)
  case Nil
  then show ?case by simp
next
  case (Cons c cs)
  then show ?case by (fastforce split: sum.splits if_splits)
qed

lemma filter_items_kept:
  "filter_items its = Inr kept \<Longrightarrow> it \<in> set kept \<Longrightarrow> it \<in> set its \<and> keep_item it = Inr True"
proof (induction its arbitrary: kept)
  case Nil
  then show ?case by simp
next
  case (Cons a its)
  then show ?case by (fastforce split: sum.splits if_splits)
qed

lemma keep_item_True:
  assumes "keep_item it = Inr True"
  shows "truthy (title it)" "truthy (backdrop_path it)"
    "\<And>s. title it = Str s \<Longrightarrow> \<not> string_includes s marker"
    "\<And>xs. title it = Arr xs \<Longrightarrow> Str marker \<notin> set xs"
  using assms by (auto simp: keep_item_def split: if_splits js.splits)

lemma bannerItems_origin:
  assumes "bannerItems cards = Inr its" "it \<in> set its"
  shows "keep_item it = Inr True \<and> (\<exists>c \<in> set cards. \<exists>k. banner_item c k = Inr it)"
proof -
  from assms(1) obtain wp mapped where wp: "filter_params cards = Inr wp"
    and mp: "map_items wp 0 = Inr mapped" and fl: "filter_items mapped = Inr its"
    by (auto simp: bannerItems_def split: sum.splits)
  from filter_items_kept [OF fl assms(2)] have k: "it \<in> set mapped" "keep_item it = Inr True"
    by simp_all
  from map_items_origin [OF mp k(1)] obtain c j where "c \<in> set wp" "banner_item c j = Inr it"
    by blast
  then show ?thesis using k(2) filter_params_subset [OF wp] by blast
qed

lemma parse_try_shape:
  assumes "parseTXBannerData_try d = Inr its" "it \<in> set its"
  shows "\<exists>cl shelf cards. cardList_of d = Arr cl \<and> find_card cl = Inr shelf
           \<and> cards_of shelf = Arr cards \<and> bannerItems cards = Inr its"
  using assms
  by (auto simp: parseTXBannerData_try_def split: js.splits sum.splits if_splits)

text \<open>
  C3: \<open>parseTXBannerData\<close> returns a list on every payload, and the list is empty when
  \<open>data?.data?.CardList\<close> is not an array, when no card of the list has the type
  \<open>pc_shelves\<close>, when \<open>children_list?.list?.cards\<close> of the card that was found is not an
  array, and when the \<open>try\<close> block raises.
\<close>

theorem adapter_total_and_empty_on_malformed:
  "(\<exists>its. parseTXBannerData d = Inr its)
   \<and> ((\<forall>cl. cardList_of d \<noteq> Arr cl) \<longrightarrow> parseTXBannerData d = Inr [])
   \<and> (cardList_of d = Arr cl
        \<and> (\<forall>c \<in> set cl. get_prop c (str ''type'') \<noteq> Inr (Str (str ''pc_shelves''))) \<longrightarrow>
      parseTXBannerData d = Inr [])
   \<and> (cardList_of d = Arr cl \<and> find_card cl = Inr shelf \<and> (\<forall>cards. cards_of shelf \<noteq> Arr cards) \<longrightarrow>
      parseTXBannerData d = Inr [])
   \<and> (parseTXBannerData_try d = Inl e \<longrightarrow> parseTXBannerData d = Inr [])"
proof (intro conjI impI)
  show "\<exists>its. parseTXBannerData d = Inr its" by (rule parseTXBannerData_returns)
next
  assume "\<forall>cl. cardList_of d \<noteq> Arr cl"
  then show "parseTXBannerData d = Inr []"
    by (simp add: parseTXBannerData_def parseTXBannerData_try_def try_catch_def split: js.splits)
next
  assume a: "cardList_of d = Arr cl
        \<and> (\<forall>c \<in> set cl. get_prop c (str ''type'') \<noteq> Inr (Str (str ''pc_shelves'')))"
  then have "find_card cl = Inr Undefined \<or> (\<exists>e. find_card cl = Inl e)"
    using find_card_no_shelf by blast
  then show "parseTXBannerData d = Inr []"
    using a by (auto simp: parseTXBannerData_def parseTXBannerData_try_def try_catch_def)
next
  assume "cardList_of d = Arr cl \<and> find_card cl = Inr shelf \<and> (\<forall>cards. cards_of shelf \<noteq> Arr cards)"
  then show "parseTXBannerData d = Inr []"
    by (simp add: parseTXBannerData_def parseTXBannerData_try_def try_catch_def split: js.splits)
next
  assume "parseTXBannerData_try d = Inl e"
  then show "parseTXBannerData d = Inr []" by (rule parseTXBannerData_raise)
qed

theorem adapter_total_and_empty_on_malformed_witness:
  "((\<forall>cl. cardList_of Null \<noteq> Arr cl) \<and> parseTXBannerData Null = Inr [])
   \<and> ((cardList_of (payload_of_cards [nav_card]) = Arr [nav_card]
        \<and> get_prop nav_card (str ''type'') \<noteq> Inr (Str (str ''pc_shelves'')))
      \<and> parseTXBannerData (payload_of_cards [nav_card]) = Inr [])
   \<and> ((cardList_of (payload_of_cards [nav_card, bare_shelf_card]) = Arr [nav_card, bare_shelf_card]
        \<and> find_card [nav_card, bare_shelf_card] = Inr bare_shelf_card
        \<and> (\<forall>cards. cards_of bare_shelf_card \<noteq> Arr cards))
      \<and> parseTXBannerData (payload_of_cards [nav_card, bare_shelf_card]) = Inr [])
   \<and> (parseTXBannerData_try (payload_of_cards [Null]) = Inl TypeError
      \<and> parseTXBannerData (payload_of_cards [Null]) = Inr [])"
proof -
  have h1: "\<forall>cl. cardList_of Null \<noteq> Arr cl"
    by (simp add: cardList_of_def)
  have h2: "cardList_of (payload_of_cards [nav_card]) = Arr [nav_card]
        \<and> (\<forall>c \<in> set [nav_card]. get_prop c (str ''type'') \<noteq> Inr (Str (str ''pc_shelves'')))"
    by (simp add: cardList_of_def payload_of_cards_def nav_card_def str_def)
  have h3: "cardList_of (payload_of_cards [nav_card, bare_shelf_card]) = Arr [nav_card, bare_shelf_card]
        \<and> find_card [nav_card, bare_shelf_card] = Inr bare_shelf_card
        \<and> (\<forall>cards. cards_of bare_shelf_card \<noteq> Arr cards)"
    by (simp add: cardList_of_def payload_of_cards_def nav_card_def bare_shelf_card_def cards_of_def str_def)
  have h4: "parseTXBannerData_try (payload_of_cards [Null]) = Inl TypeError"
    by (simp add: parseTXBannerData_try_def cardList_of_def payload_of_cards_def str_def)
  have c1: "parseTXBannerData Null = Inr []"
    using h1 adapter_total_and_empty_on_malformed [of Null] by blast
  have c2: "parseTXBannerData (payload_of_cards [nav_card]) = Inr []"
    using h2 adapter_total_and_empty_on_malformed [of "payload_of_cards [nav_card]" "[nav_card]"] by blast
  have c3: "parseTXBannerData (payload_of_cards [nav_card, bare_shelf_card]) = Inr []"
    using h3 adapter_total_and_empty_on_malformed
      [of "payload_of_cards [nav_card, bare_shelf_card]" "[nav_card, bare_shelf_card]" bare_shelf_card]
    by blast
  have c4: "parseTXBannerData (payload_of_cards [Null]) = Inr []"
    using h4 adapter_total_and_empty_on_malformed [of "payload_of_cards [Null]" _ _ TypeError] by blast
  have h2': "get_prop nav_card (str ''type'') \<noteq> Inr (Str (str ''pc_shelves''))"
    using h2 by simp
  show ?thesis using h1 h2 h2' h3 h4 c1 c2 c3 c4 by blast
qed

text \<open>
  C4: every item that \<open>parseTXBannerData\<close> returns has a title and a backdrop reference
  that are truthy (so neither is the empty string), a title on which \<open>includes\<close> of the
  promotional marker is false (a string without the marker as a substring, or an array
  without the marker as an element), and comes from a card of the shelf whose \<open>params\<close> is
  an object holding that title and that image reference.
\<close>

theorem adapter_filtering:
  "parseTXBannerData d = Inr its \<and> it \<in> set its \<longrightarrow>
     truthy (title it) \<and> title it \<noteq> Str []
     \<and> truthy (backdrop_path it) \<and> backdrop_path it \<noteq> Str []
     \<and> (\<forall>s. title it = Str s \<longrightarrow> \<not> string_includes s marker)
     \<and> (\<forall>xs. title it = Arr xs \<longrightarrow> Str marker \<notin> set xs)
     \<and> (\<exists>cl shelf cards c ps.
           cardList_of d = Arr cl \<and> find_card cl = Inr shelf \<and> cards_of shelf = Arr cards
           \<and> c \<in> set cards \<and> get_prop c (str ''params'') = Inr (Obj ps)
           \<and> map_of ps (str ''title'') = Some (title it)
           \<and> map_of ps (str ''priority_image_url'') = Some (backdrop_path it))"
proof (intro impI, elim conjE)
  assume p: "parseTXBannerData d = Inr its" and m: "it \<in> set its"
  have t: "parseTXBannerData_try d = Inr its"
    using p m by (auto simp: parseTXBannerData_def try_catch_def split: sum.splits)
  from parse_try_shape [OF t m] obtain cl shelf cards where
    sh: "cardList_of d = Arr cl" "find_card cl = Inr shelf" "cards_of shelf = Arr cards"
    and bi: "bannerItems cards = Inr its" by blast
  from bannerItems_origin [OF bi m] obtain c k where
    keep: "keep_item it = Inr True" and c: "c \<in> set cards" and it: "banner_item c k = Inr it"
    by blast
  from banner_item_fields [OF it] obtain params t img where
    f: "get_prop c (str ''params'') = Inr params"
       "get_prop params (str ''title'') = Inr t" "title it = or_else t (Str [])"
       "get_prop params (str ''priority_image_url'') = Inr img"
       "backdrop_path it = or_else img (Str [])" by blast
  have tt: "truthy (title it)" and tb: "truthy (backdrop_path it)"
    using keep_item_True(1,2) [OF keep] by simp_all
  have t': "truthy t" "title it = t" using or_else_truthy tt f(3) by auto
  have i': "truthy img" "backdrop_path it = img" using or_else_truthy tb f(5) by auto
  from get_prop_truthy [OF f(2) t'(1)] obtain ps where
    ps: "params = Obj ps" "map_of ps (str ''title'') = Some t" by blast
  have img: "map_of ps (str ''priority_image_url'') = Some img"
    using get_prop_truthy [OF f(4) i'(1)] ps(1) by auto
  have prov: "\<exists>cl shelf cards c ps.
           cardList_of d = Arr cl \<and> find_card cl = Inr shelf \<and> cards_of shelf = Arr cards
           \<and> c \<in> set cards \<and> get_prop c (str ''params'') = Inr (Obj ps)
           \<and> map_of ps (str ''title'') = Some (title it)
           \<and> map_of ps (str ''priority_image_url'') = Some (backdrop_path it)"
    using sh c f(1) ps img t'(2) i'(2) by blast
  have ne: "title it \<noteq> Str []" "backdrop_path it \<noteq> Str []"
    using tt tb by auto
  show "truthy (title it) \<and> title it \<noteq> Str []
     \<and> truthy (backdrop_path it) \<and> backdrop_path it \<noteq> Str []
     \<and> (\<forall>s. title it = Str s \<longrightarrow> \<not> string_includes s marker)
     \<and> (\<forall>xs. title it = Arr xs \<longrightarrow> Str marker \<notin> set xs)
     \<and> (\<exists>cl shelf cards c ps.
           cardList_of d = Arr cl \<and> find_card cl = Inr shelf \<and> cards_of shelf = Arr cards
           \<and> c \<in> set cards \<and> get_prop c (str ''params'') = Inr (Obj ps)
           \<and> map_of ps (str ''title'') = Some (title it)
           \<and> map_of ps (str ''priority_image_url'') = Some (backdrop_path it))"
    using tt tb ne keep_item_True(3,4) [OF keep] prov by blast
qed

theorem adapter_filtering_witness:
  "(parseTXBannerData sample_payload =
       Inr [sample_item 1 (str ''Show'') (str ''https://img/1.jpg''),
            sample_item 4 (str ''Film'') (str ''https://img/3.jpg'')]
     \<and> sample_item 4 (str ''Film'') (str ''https://img/3.jpg'')
          \<in> set [sample_item 1 (str ''Show'') (str ''https://img/1.jpg''),
                 sample_item 4 (str ''Film'') (str ''https://img/3.jpg'')])
   \<and> truthy (title (sample_item 4 (str ''Film'') (str ''https://img/3.jpg'')))
   \<and> truthy (backdrop_path (sample_item 4 (str ''Film'') (str ''https://img/3.jpg'')))
   \<and> title (sample_item 4 (str ''Film'') (str ''https://img/3.jpg'')) = Str (str ''Film'')
   \<and> \<not> string_includes (str ''Film'') marker"
proof -
  have h: "parseTXBannerData sample_payload =
       Inr [sample_item 1 (str ''Show'') (str ''https://img/1.jpg''),
            sample_item 4 (str ''Film'') (str ''https://img/3.jpg'')]"
    by code_simp
  have m: "sample_item 4 (str ''Film'') (str ''https://img/3.jpg'')
          \<in> set [sample_item 1 (str ''Show'') (str ''https://img/1.jpg''),
                 sample_item 4 (str ''Film'') (str ''https://img/3.jpg'')]"
    by simp
  have t: "title (sample_item 4 (str ''Film'') (str ''https://img/3.jpg'')) = Str (str ''Film'')"
    by (simp add: sample_item_def)
  show ?thesis
    using h m t adapter_filtering [of sample_payload
        "[sample_item 1 (str ''Show'') (str ''https://img/1.jpg''),
          sample_item 4 (str ''Film'') (str ''https://img/3.jpg'')]"
        "sample_item 4 (str ''Film'') (str ''https://img/3.jpg'')"]
    by blast
qed

section \<open>The browser cache: the claim\<close>

lemma envelope_fields:
  "get_prop (envelope lst now) (str ''data'') = Inr lst"
  "get_prop (envelope lst now) (str ''timestamp'') = Inr (Num now)"
  by (simp_all add: envelope_def str_def)

lemma read_cache_hit:
  assumes "getItem ls LOCALSTORAGE_KEY = Some text" "text \<noteq> []"
    "JSON_parse env text = Inr (envelope lst t0)"
    "now_read env - t0 < LOCALSTORAGE_DURATION"
  shows "read_cache env ls = Inr (Some lst)"
  using assms
  by (simp add: read_cache_def read_cache_try_def try_catch_def envelope_fields to_number_def)

lemma read_cache_corrupt:
  assumes "getItem ls LOCALSTORAGE_KEY = Some cached" "JSON_parse env cached = Inl e"
  shows "read_cache env ls = Inr None"
  using assms by (simp add: read_cache_def read_cache_try_def try_catch_def)

lemma read_cache_absent:
  "read_cache env (removeItem ls LOCALSTORAGE_KEY) = Inr None"
proof -
  have "getItem (removeItem ls LOCALSTORAGE_KEY) LOCALSTORAGE_KEY = None"
    using map_of_filter_keys [of "\<lambda>k. k \<noteq> LOCALSTORAGE_KEY" "entries ls" LOCALSTORAGE_KEY]
    by (simp add: getItem_def removeItem_def)
  then show ?thesis by (simp add: read_cache_def)
qed

lemma write_cache_admitted:
  assumes "admits ls (put_entry LOCALSTORAGE_KEY (JSON_stringify env (envelope lst (now_write env))) (entries ls))"
  shows "write_cache env ls lst =
           Inr (ls\<lparr>entries := put_entry LOCALSTORAGE_KEY (JSON_stringify env (envelope lst (now_write env))) (entries ls)\<rparr>)"
  using assms by (simp add: write_cache_def try_catch_def setItem_def Let_def)

lemma to_number_storage: "to_number (env\<lparr>localStorage := x\<rparr>) v = to_number env v"
  by (cases v) (simp_all add: to_number_def)

lemma usable_list_storage: "usable_list (env\<lparr>localStorage := x\<rparr>) result = usable_list env result"
  by (simp add: usable_list_def to_number_storage split: sum.splits)

lemma fetchTrending_miss:
  assumes "localStorage env = Inr ls" "read_cache env ls = Inr None"
  shows "requested (fetchTrending env) = True"
    and "setItems (fetchTrending env) =
           (case api_result env of
              Inl e \<Rightarrow> None
            | Inr result \<Rightarrow> (case usable_list env result of Inl e \<Rightarrow> None | Inr r \<Rightarrow> r))"
  using assms
  by (simp_all add: fetchTrending_def fetchTrending_try_def split: sum.splits option.splits)

text \<open>
  C7: the browser cache. A run that fetched a usable list and whose write was accepted
  leaves a text under the fixed key; a later run that reads this storage within 24 hours
  of the write, with \<open>JSON.parse\<close> giving back the envelope that \<open>JSON.stringify\<close> was given
  (and that text not empty), calls \<open>setItems\<close> with exactly that list and makes no request.
  When \<open>JSON.parse\<close> raises on the stored text, the read is a miss: the request is made,
  no exception leaves \<open>fetchTrending\<close>, and \<open>setItems\<close> gets what it gets when nothing is
  stored under the key.
\<close>

theorem client_cache_round_trip_and_corruption:
  "(localStorage env1 = Inr ls \<and> read_cache env1 ls = Inr None \<and> api_result env1 = Inr result
      \<and> usable_list env1 result = Inr (Some lst)
      \<and> admits ls (put_entry LOCALSTORAGE_KEY (JSON_stringify env1 (envelope lst (now_write env1))) (entries ls))
      \<and> localStorage env2 = storage_after (fetchTrending env1)
      \<and> JSON_stringify env1 (envelope lst (now_write env1)) \<noteq> []
      \<and> JSON_parse env2 (JSON_stringify env1 (envelope lst (now_write env1))) =
            Inr (envelope lst (now_write env1))
      \<and> now_read env2 - now_write env1 < 24 * (60 * 60 * 1000) \<longrightarrow>
      setItems (fetchTrending env1) = Some lst
      \<and> setItems (fetchTrending env2) = Some lst
      \<and> requested (fetchTrending env2) = False
      \<and> raised (fetchTrending_try env2) = None)
   \<and> (localStorage env = Inr ls' \<and> getItem ls' LOCALSTORAGE_KEY = Some cached
      \<and> JSON_parse env cached = Inl e \<longrightarrow>
      read_cache env ls' = Inr None
      \<and> requested (fetchTrending env) = True
      \<and> raised (fetchTrending env) = None
      \<and> setItems (fetchTrending env) =
          setItems (fetchTrending (env\<lparr>localStorage := Inr (removeItem ls' LOCALSTORAGE_KEY)\<rparr>)))"
proof (rule conjI; rule impI)
  assume a: "localStorage env1 = Inr ls \<and> read_cache env1 ls = Inr None \<and> api_result env1 = Inr result
      \<and> usable_list env1 result = Inr (Some lst)
      \<and> admits ls (put_entry LOCALSTORAGE_KEY (JSON_stringify env1 (envelope lst (now_write env1))) (entries ls))
      \<and> localStorage env2 = storage_after (fetchTrending env1)
      \<and> JSON_stringify env1 (envelope lst (now_write env1)) \<noteq> []
      \<and> JSON_parse env2 (JSON_stringify env1 (envelope lst (now_write env1))) =
            Inr (envelope lst (now_write env1))
      \<and> now_read env2 - now_write env1 < 24 * (60 * 60 * 1000)"
  let ?text = "JSON_stringify env1 (envelope lst (now_write env1))"
  let ?ls' = "ls\<lparr>entries := put_entry LOCALSTORAGE_KEY ?text (entries ls)\<rparr>"
  have w: "storage_after (fetchTrending env1) = Inr ?ls'"
    using a write_cache_admitted [of ls env1 lst]
    by (simp add: fetchTrending_def fetchTrending_try_def)
  have s1: "setItems (fetchTrending env1) = Some lst"
    using a by (simp add: fetchTrending_def fetchTrending_try_def)
  have g: "getItem ?ls' LOCALSTORAGE_KEY = Some ?text"
    by (simp add: getItem_def map_of_put_entry)
  have ne: "?text \<noteq> []" using a by blast
  have rt: "JSON_parse env2 ?text = Inr (envelope lst (now_write env1))" using a by blast
  have "now_read env2 - now_write env1 < 24 * (60 * 60 * 1000)" using a by blast
  then have fresh: "now_read env2 - now_write env1 < LOCALSTORAGE_DURATION"
    by (simp add: LOCALSTORAGE_DURATION_def)
  have hit: "read_cache env2 ?ls' = Inr (Some lst)"
    by (rule read_cache_hit [OF g ne rt fresh])
  have l2: "localStorage env2 = Inr ?ls'" using a w by simp
  show "setItems (fetchTrending env1) = Some lst
      \<and> setItems (fetchTrending env2) = Some lst
      \<and> requested (fetchTrending env2) = False
      \<and> raised (fetchTrending_try env2) = None"
    using s1 hit l2 by (simp add: fetchTrending_def fetchTrending_try_def)
next
  assume a: "localStorage env = Inr ls' \<and> getItem ls' LOCALSTORAGE_KEY = Some cached
      \<and> JSON_parse env cached = Inl e"
  then have miss: "read_cache env ls' = Inr None"
    using read_cache_corrupt by blast
  let ?env0 = "env\<lparr>localStorage := Inr (removeItem ls' LOCALSTORAGE_KEY)\<rparr>"
  have miss0: "read_cache ?env0 (removeItem ls' LOCALSTORAGE_KEY) = Inr None"
    by (rule read_cache_absent)
  have "setItems (fetchTrending env) = setItems (fetchTrending ?env0)"
    using fetchTrending_miss(2) [of env ls'] fetchTrending_miss(2) [of ?env0 "removeItem ls' LOCALSTORAGE_KEY"]
      a miss miss0 by (simp add: usable_list_storage split: sum.splits)
  moreover have "requested (fetchTrending env) = True"
    using fetchTrending_miss(1) [of env ls'] a miss by simp
  moreover have "raised (fetchTrending env) = None" by (simp add: fetchTrending_def)
  ultimately show "read_cache env ls' = Inr None
      \<and> requested (fetchTrending env) = True
      \<and> raised (fetchTrending env) = None
      \<and> setItems (fetchTrending env) =
          setItems (fetchTrending (env\<lparr>localStorage := Inr (removeItem ls' LOCALSTORAGE_KEY)\<rparr>))"
    using miss by simp
qed

theorem client_cache_round_trip_and_corruption_witness:
  "((localStorage writing_client = Inr empty_storage
       \<and> read_cache writing_client empty_storage = Inr None
       \<and> api_result writing_client = Inr (Obj [(str ''code'', Num 200), (str ''list'', sample_list)])
       \<and> usable_list writing_client (Obj [(str ''code'', Num 200), (str ''list'', sample_list)]) =
            Inr (Some sample_list)
       \<and> admits empty_storage
            (put_entry LOCALSTORAGE_KEY
               (JSON_stringify writing_client (envelope sample_list (now_write writing_client)))
               (entries empty_storage))
       \<and> localStorage reading_client = storage_after (fetchTrending writing_client)
       \<and> JSON_stringify writing_client (envelope sample_list (now_write writing_client)) \<noteq> []
       \<and> JSON_parse reading_client
            (JSON_stringify writing_client (envelope sample_list (now_write writing_client))) =
            Inr (envelope sample_list (now_write writing_client))
       \<and> now_read reading_client - now_write writing_client < 24 * (60 * 60 * 1000))
     \<and> setItems (fetchTrending reading_client) = Some sample_list
     \<and> requested (fetchTrending reading_client) = False)
   \<and> ((localStorage corrupted_client = Inr corrupted_storage
       \<and> getItem corrupted_storage LOCALSTORAGE_KEY = Some (str ''{broken'')
       \<and> JSON_parse corrupted_client (str ''{broken'') = Inl SyntaxError)
     \<and> requested (fetchTrending corrupted_client) = True
     \<and> raised (fetchTrending corrupted_client) = None)"
proof -
  have h1: "localStorage writing_client = Inr empty_storage
       \<and> read_cache writing_client empty_storage = Inr None
       \<and> api_result writing_client = Inr (Obj [(str ''code'', Num 200), (str ''list'', sample_list)])
       \<and> usable_list writing_client (Obj [(str ''code'', Num 200), (str ''list'', sample_list)]) =
            Inr (Some sample_list)
       \<and> admits empty_storage
            (put_entry LOCALSTORAGE_KEY
               (JSON_stringify writing_client (envelope sample_list (now_write writing_client)))
               (entries empty_storage))
       \<and> localStorage reading_client = storage_after (fetchTrending writing_client)
       \<and> JSON_stringify writing_client (envelope sample_list (now_write writing_client)) \<noteq> []
       \<and> JSON_parse reading_client
            (JSON_stringify writing_client (envelope sample_list (now_write writing_client))) =
            Inr (envelope sample_list (now_write writing_client))
       \<and> now_read reading_client - now_write writing_client < 24 * (60 * 60 * 1000)"
    by (simp add: writing_client_def reading_client_def empty_storage_def unlimited_def
        read_cache_def getItem_def usable_list_def to_number_def sample_list_def str_def
        table_stringify_def table_parse_def sample_text_def)
  have h2: "localStorage corrupted_client = Inr corrupted_storage
       \<and> getItem corrupted_storage LOCALSTORAGE_KEY = Some (str ''{broken'')
       \<and> JSON_parse corrupted_client (str ''{broken'') = Inl SyntaxError"
    by (simp add: corrupted_client_def corrupted_storage_def getItem_def table_parse_def
        sample_text_def str_def)
  have c1: "setItems (fetchTrending reading_client) = Some sample_list
     \<and> requested (fetchTrending reading_client) = False"
    using h1 client_cache_round_trip_and_corruption
      [of writing_client empty_storage "Obj [(str ''code'', Num 200), (str ''list'', sample_list)]"
          sample_list reading_client]
    by blast
  have c2: "requested (fetchTrending corrupted_client) = True
     \<and> raised (fetchTrending corrupted_client) = None"
    using h2 client_cache_round_trip_and_corruption
      [of _ _ _ _ _ corrupted_client corrupted_storage "str ''{broken''" SyntaxError]
    by blast
  show ?thesis using h1 h2 c1 c2 by blast
qed

end
